theory Spec2Isabelle
  imports Main "HOL-Library.AList"
begin

text \<open>
  A verification development for notion-sync: the routing of a master record to its
  public collections and the mapping of its properties (utils.js), the sanitizer of page
  content and the forward sync (the sync script, part_000), the cleanup of closed records (cleanup.js) and
  the retry wrapper of the store client (notion-client.js). The first part translates
  the source; the second states and proves its properties.
\<close>

section \<open>JavaScript values\<close>

text \<open>
  The program is JavaScript working on the JSON documents of the remote store. A value is
  one of JavaScript's primitives, an array, or an object given by the list of its own
  properties in the order of their creation (no function of the program depends on that
  order). Numbers are the integer-valued ones (identifiers, counts, durations).
  \<open>Proto k\<close> is the value every plain object inherits under the key \<open>k\<close> from
  \<open>Object.prototype\<close>: a built-in function, and for \<open>__proto__\<close> the prototype
  object itself. Such a value is the result of a lookup only; the documents of the store
  contain none.

  A string is a list of characters, one for each code unit of an ASCII text; the Japanese
  literals of the source are written as their UTF-8 bytes, so equality and concatenation
  of strings are those of the source.
\<close>

datatype jsval =
    Undefined
  | Null
  | Bool bool
  | Num int
  | Str string
  | Arr "jsval list"
  | Obj "(string \<times> jsval) list"
  | Proto string

type_synonym obj = "(string \<times> jsval) list"

text \<open>The headers an error carries: none, a plain object from header names to values, or
  the \<open>Headers\<close> object of fetch. The error the store client throws for an answer of
  the store (its \<open>APIResponseError\<close>) carries the headers of that answer as a
  \<open>Headers\<close> object, whose entries are read with \<open>get\<close> and are no properties of
  the object.\<close>

datatype headers =
    NoHeaders
  | PlainHeaders "(string \<times> string) list"
  | FetchHeaders "(string \<times> string) list"

text \<open>Values thrown: a \<open>TypeError\<close> of the language, an error of the store client (its
  \<open>code\<close>, \<open>status\<close> and \<open>headers\<close>), or the configuration error of
  \<open>loadDbConfig\<close> with the names of the missing variables.\<close>

record api_error =
  code :: "string option"
  status :: "int option"
  headers :: headers

datatype js_error = TypeError | ApiError api_error | ConfigError "string list"

fun truthy :: "jsval \<Rightarrow> bool" where
  "truthy Undefined = False"
| "truthy Null = False"
| "truthy (Bool b) = b"
| "truthy (Num n) = (n \<noteq> 0)"
| "truthy (Str s) = (s \<noteq> [])"
| "truthy (Arr xs) = True"
| "truthy (Obj ps) = True"
| "truthy (Proto k) = True"

fun nullish :: "jsval \<Rightarrow> bool" where
  "nullish Undefined = True"
| "nullish Null = True"
| "nullish v = False"

definition js_or :: "jsval \<Rightarrow> jsval \<Rightarrow> jsval" where
  "js_or a b = (if truthy a then a else b)"

definition object_prototype_keys :: "string list" where
  "object_prototype_keys =
    [''constructor'', ''__defineGetter__'', ''__defineSetter__'', ''hasOwnProperty'',
     ''__lookupGetter__'', ''__lookupSetter__'', ''isPrototypeOf'', ''propertyIsEnumerable'',
     ''toString'', ''valueOf'', ''__proto__'', ''toLocaleString'']"

text \<open>\<open>o[k]\<close> on a plain object: the own property, else the inherited member, else
  \<open>undefined\<close>.\<close>

definition getProp :: "obj \<Rightarrow> string \<Rightarrow> jsval" where
  "getProp ps k =
    (case map_of ps k of
       Some v \<Rightarrow> v
     | None \<Rightarrow> if k \<in> set object_prototype_keys then Proto k else Undefined)"

text \<open>\<open>v.k\<close> on a value that is neither \<open>null\<close> nor \<open>undefined\<close>. The members of
  strings, numbers, booleans, arrays and functions (\<open>length\<close>, indices, methods) are not
  modelled: the program reads none of them through this function.\<close>

fun field_of :: "jsval \<Rightarrow> string \<Rightarrow> jsval" where
  "field_of (Obj ps) k = getProp ps k"
| "field_of v k = Undefined"

text \<open>\<open>v.k\<close> in general: a \<open>TypeError\<close> on \<open>null\<close> and \<open>undefined\<close>.\<close>

definition member :: "jsval \<Rightarrow> string \<Rightarrow> js_error + jsval" where
  "member v k = (if nullish v then Inl TypeError else Inr (field_of v k))"

text \<open>\<open>v?.k\<close>\<close>

definition opt_chain :: "jsval \<Rightarrow> string \<Rightarrow> jsval" where
  "opt_chain v k = (if nullish v then Undefined else field_of v k)"

subsection \<open>Conversion to string\<close>

definition digit_char :: "nat \<Rightarrow> char" where
  "digit_char d = char_of (48 + d)"

function show_nat :: "nat \<Rightarrow> string" where
  "show_nat n = (if n < 10 then [digit_char n] else show_nat (n div 10) @ [digit_char (n mod 10)])"
  by pat_completeness auto
termination
  by (relation "measure id") auto

definition show_int :: "int \<Rightarrow> string" where
  "show_int i = (if i < 0 then CHR ''-'' # show_nat (nat (- i)) else show_nat (nat i))"

text \<open>The text of a built-in function of \<open>Object.prototype\<close>, as Node prints it.\<close>

definition native_text :: "string \<Rightarrow> string" where
  "native_text k =
    (if k = ''__proto__'' then ''[object Object]''
     else ''function '' @ (if k = ''constructor'' then ''Object'' else k) @ ''() { [native code] }'')"

text \<open>\<open>String(v)\<close>, which is also the conversion of a computed property key and of a
  value inside a template literal. An integer prints in decimal (as JavaScript does below
  \<open>10^21\<close>). A plain object prints through the inherited
  \<open>toString\<close>; an own property of that name is data, not a function, and then the
  conversion throws. An array joins its elements with commas, \<open>null\<close> and
  \<open>undefined\<close> printing as the empty string.\<close>

fun to_string :: "jsval \<Rightarrow> js_error + string"
  and join_with :: "string \<Rightarrow> jsval list \<Rightarrow> js_error + string" where
  "to_string Undefined = Inr ''undefined''"
| "to_string Null = Inr ''null''"
| "to_string (Bool b) = Inr (if b then ''true'' else ''false'')"
| "to_string (Num n) = Inr (show_int n)"
| "to_string (Str s) = Inr s"
| "to_string (Arr xs) = join_with '','' xs"
| "to_string (Obj ps) =
     (if map_of ps ''toString'' \<noteq> None then Inl TypeError else Inr ''[object Object]'')"
| "to_string (Proto k) = Inr (native_text k)"
| "join_with sep [] = Inr []"
| "join_with sep (x # xs) =
     (case (if nullish x then Inr [] else to_string x) of
        Inl e \<Rightarrow> Inl e
      | Inr s \<Rightarrow>
          (if xs = [] then Inr s
           else (case join_with sep xs of Inl e \<Rightarrow> Inl e | Inr r \<Rightarrow> Inr (s @ sep @ r))))"

text \<open>The results of a sequence of evaluations: the first exception, or all values.\<close>

fun collect :: "(js_error + 'a) list \<Rightarrow> js_error + 'a list" where
  "collect [] = Inr []"
| "collect (x # xs) =
     (case x of
        Inl e \<Rightarrow> Inl e
      | Inr v \<Rightarrow> (case collect xs of Inl e \<Rightarrow> Inl e | Inr vs \<Rightarrow> Inr (v # vs)))"

text \<open>The substitutions of a template literal, converted from left to right.\<close>

definition template :: "jsval list \<Rightarrow> js_error + string list" where
  "template vs = collect (map to_string vs)"

section \<open>Routing: utils.js\<close>

definition douga_seisaku :: string where
  "douga_seisaku = [CHR 0xE5, CHR 0x8B, CHR 0x95, CHR 0xE7, CHR 0x94, CHR 0xBB, CHR 0xE5, CHR 0x88, CHR 0xB6, CHR 0xE4, CHR 0xBD, CHR 0x9C]"

definition design_seisaku :: string where
  "design_seisaku = [CHR 0xE3, CHR 0x83, CHR 0x87, CHR 0xE3, CHR 0x82, CHR 0xB6, CHR 0xE3, CHR 0x82, CHR 0xA4, CHR 0xE3, CHR 0x83, CHR 0xB3, CHR 0xE5, CHR 0x88, CHR 0xB6, CHR 0xE4, CHR 0xBD, CHR 0x9C]"

definition level1 :: string where
  "level1 = [CHR 0xE3, CHR 0x83, CHR 0xAC, CHR 0xE3, CHR 0x83, CHR 0x99, CHR 0xE3, CHR 0x83, CHR 0xAB, CHR 0x31]"

definition level2 :: string where
  "level2 = [CHR 0xE3, CHR 0x83, CHR 0xAC, CHR 0xE3, CHR 0x83, CHR 0x99, CHR 0xE3, CHR 0x83, CHR 0xAB, CHR 0x32]"

definition level3 :: string where
  "level3 = [CHR 0xE3, CHR 0x83, CHR 0xAC, CHR 0xE3, CHR 0x83, CHR 0x99, CHR 0xE3, CHR 0x83, CHR 0xAB, CHR 0x33]"

text \<open>\<open>getTypePrefix\<close>: the lookup \<open>mapping[jobType] || null\<close> in an object literal
  with two own keys. The key is the string conversion of the argument.\<close>

definition mapping :: obj where
  "mapping = [(douga_seisaku, Str ''video''), (design_seisaku, Str ''design'')]"

definition getTypePrefix :: "jsval \<Rightarrow> js_error + jsval" where
  "getTypePrefix jobType =
    (case to_string jobType of
       Inl e \<Rightarrow> Inl e
     | Inr k \<Rightarrow> Inr (js_or (getProp mapping k) Null))"

text \<open>The template literal \<open>`${typePrefix}_levelN`\<close>.\<close>

definition level_key :: "jsval \<Rightarrow> string \<Rightarrow> js_error + string" where
  "level_key typePrefix suffix =
    (case to_string typePrefix of Inl e \<Rightarrow> Inl e | Inr p \<Rightarrow> Inr (p @ suffix))"


definition getTargetDatabases :: "jsval \<Rightarrow> jsval \<Rightarrow> js_error + string list" where
  "getTargetDatabases jobType level =
    (case getTypePrefix jobType of
       Inl e \<Rightarrow> Inl e
     | Inr typePrefix \<Rightarrow>
         if \<not> truthy typePrefix then Inr []
         else if level = Str level1 then
           collect [level_key typePrefix ''_level1'', level_key typePrefix ''_level2'',
                    level_key typePrefix ''_level3'']
         else if level = Str level2 then
           collect [level_key typePrefix ''_level2'', level_key typePrefix ''_level3'']
         else if level = Str level3 then
           collect [level_key typePrefix ''_level3'']
         else Inr [])"

section \<open>Property mapping: utils.js\<close>

definition anken_shousai :: string where
  "anken_shousai = [CHR 0xE6, CHR 0xA1, CHR 0x88, CHR 0xE4, CHR 0xBB, CHR 0xB6, CHR 0xE8, CHR 0xA9, CHR 0xB3, CHR 0xE7, CHR 0xB4, CHR 0xB0]"

definition anken_mei :: string where
  "anken_mei = [CHR 0xE6, CHR 0xA1, CHR 0x88, CHR 0xE4, CHR 0xBB, CHR 0xB6, CHR 0xE5, CHR 0x90, CHR 0x8D]"

definition anken_id :: string where
  "anken_id = [CHR 0xE6, CHR 0xA1, CHR 0x88, CHR 0xE4, CHR 0xBB, CHR 0xB6, CHR 0x49, CHR 0x44]"

definition master_anken_id :: string where
  "master_anken_id = [CHR 0xE3, CHR 0x83, CHR 0x9E, CHR 0xE3, CHR 0x82, CHR 0xB9, CHR 0xE3, CHR 0x82, CHR 0xBF, CHR 0xE3, CHR 0x83, CHR 0xBC, CHR 0xE6, CHR 0xA1, CHR 0x88, CHR 0xE4, CHR 0xBB, CHR 0xB6, CHR 0x49, CHR 0x44]"

definition mudai :: string where
  "mudai = [CHR 0x28, CHR 0xE7, CHR 0x84, CHR 0xA1, CHR 0xE9, CHR 0xA1, CHR 0x8C, CHR 0x29]"

text \<open>A page of the store, as the client returns it: its identifier and the object of
  its properties.\<close>

record page =
  page_id :: jsval
  properties :: obj

text \<open>The assignment \<open>o[k] = v\<close> on a plain object. Under the key \<open>__proto__\<close> it
  goes to the inherited setter and creates no own property.\<close>

definition assign :: "obj \<Rightarrow> string \<Rightarrow> jsval \<Rightarrow> obj" where
  "assign ps k v = (if k = ''__proto__'' then ps else AList.update k v ps)"

text \<open>\<open>(v || []).map((item) => ({ name: item.name }))\<close>: a value without \<open>map\<close>
  and an item that is \<open>null\<close> throw.\<close>

definition name_of_item :: "jsval \<Rightarrow> js_error + jsval" where
  "name_of_item item =
    (case member item ''name'' of Inl e \<Rightarrow> Inl e | Inr n \<Rightarrow> Inr (Obj [(''name'', n)]))"

definition map_names :: "jsval \<Rightarrow> js_error + jsval" where
  "map_names v =
    (case js_or v (Arr []) of
       Arr xs \<Rightarrow> (case collect (map name_of_item xs) of Inl e \<Rightarrow> Inl e | Inr ys \<Rightarrow> Inr (Arr ys))
     | _ \<Rightarrow> Inl TypeError)"

definition buildPropertyValue :: "jsval \<Rightarrow> js_error + jsval" where
  "buildPropertyValue prop =
    (case member prop ''type'' of
       Inl e \<Rightarrow> Inl e
     | Inr t \<Rightarrow>
         if t = Str ''rich_text'' then
           Inr (Obj [(''rich_text'', js_or (field_of prop ''rich_text'') (Arr []))])
         else if t = Str ''number'' then
           Inr (Obj [(''number'', field_of prop ''number'')])
         else if t = Str ''select'' then
           (if truthy (field_of prop ''select'')
            then Inr (Obj [(''select'', Obj [(''name'', field_of (field_of prop ''select'') ''name'')])])
            else Inr (Obj [(''select'', Null)]))
         else if t = Str ''multi_select'' then
           (case map_names (field_of prop ''multi_select'') of
              Inl e \<Rightarrow> Inl e
            | Inr ys \<Rightarrow> Inr (Obj [(''multi_select'', ys)]))
         else if t = Str ''date'' then
           Inr (Obj [(''date'', field_of prop ''date'')])
         else if t = Str ''url'' then
           Inr (Obj [(''url'', field_of prop ''url'')])
         else if t = Str ''checkbox'' then
           Inr (Obj [(''checkbox'', field_of prop ''checkbox'')])
         else if t = Str ''email'' then
           Inr (Obj [(''email'', field_of prop ''email'')])
         else if t = Str ''phone_number'' then
           Inr (Obj [(''phone_number'', field_of prop ''phone_number'')])
         else
           Inr (Obj [(''rich_text'', js_or (field_of prop ''rich_text'') (Arr []))]))"

text \<open>The loop over \<open>copyFields\<close>, with the object \<open>mapped\<close> built so far.\<close>

fun copy_loop :: "obj \<Rightarrow> string list \<Rightarrow> obj \<Rightarrow> js_error + obj" where
  "copy_loop sourceProps [] mapped = Inr mapped"
| "copy_loop sourceProps (field # fs) mapped =
     (if field = anken_shousai then copy_loop sourceProps fs mapped
      else if field = anken_mei then copy_loop sourceProps fs mapped
      else
        (let prop = getProp sourceProps field in
         if \<not> truthy prop then copy_loop sourceProps fs mapped
         else
           (case buildPropertyValue prop of
              Inl e \<Rightarrow> Inl e
            | Inr v \<Rightarrow> copy_loop sourceProps fs (assign mapped field v))))"

definition add_title :: "obj \<Rightarrow> obj \<Rightarrow> obj" where
  "add_title sourceProps mapped =
    (let titleProp = getProp sourceProps anken_mei in
     if truthy titleProp
     then assign mapped anken_mei (Obj [(''title'', js_or (field_of titleProp ''title'') (Arr []))])
     else mapped)"

definition add_master_id :: "obj \<Rightarrow> obj \<Rightarrow> obj" where
  "add_master_id sourceProps mapped =
    (let masterIdProp = getProp sourceProps anken_id in
     if truthy masterIdProp \<and> truthy (field_of masterIdProp ''unique_id'')
     then assign mapped master_anken_id
            (Obj [(''number'', field_of (field_of masterIdProp ''unique_id'') ''number'')])
     else mapped)"

definition mapProperties :: "page \<Rightarrow> string list \<Rightarrow> js_error + obj" where
  "mapProperties page copyFields =
    (let sourceProps = properties page in
     case copy_loop sourceProps copyFields [] of
       Inl e \<Rightarrow> Inl e
     | Inr mapped \<Rightarrow> Inr (add_master_id sourceProps (add_title sourceProps mapped)))"

text \<open>\<open>getPageTitle\<close>: the plain texts of the title spans, joined; \<open>(untitled)\<close> when
  there is no title. A title that is no array, or a span that is \<open>null\<close>, throws.\<close>

definition getPageTitle :: "page \<Rightarrow> js_error + string" where
  "getPageTitle page =
    (let titleProp = getProp (properties page) anken_mei in
     if \<not> truthy titleProp \<or> \<not> truthy (field_of titleProp ''title'') then Inr mudai
     else
       (case field_of titleProp ''title'' of
          Arr ts \<Rightarrow>
            (case collect (map (\<lambda>t. member t ''plain_text'') ts) of
               Inl e \<Rightarrow> Inl e
             | Inr texts \<Rightarrow>
                 (case join_with [] texts of
                    Inl e \<Rightarrow> Inl e
                  | Inr s \<Rightarrow> Inr (if s = [] then mudai else s)))
        | _ \<Rightarrow> Inl TypeError))"

section \<open>Content sanitizer: the sync script\<close>

text \<open>The object spread \<open>{ ...v }\<close>: the own enumerable properties of the value. A
  string and an array spread into their indices (for a string one index for each
  character, as for ASCII text); numbers, booleans and functions have none.\<close>

definition index_keys :: "'a list \<Rightarrow> string list" where
  "index_keys xs = map show_nat [0..<length xs]"

fun spread :: "jsval \<Rightarrow> obj" where
  "spread (Obj ps) = ps"
| "spread (Arr xs) = zip (index_keys xs) xs"
| "spread (Str s) = zip (index_keys s) (map (\<lambda>c. Str [c]) s)"
| "spread v = []"

text \<open>The attributes removed by the eight \<open>delete\<close> statements, in their order.\<close>

definition read_only_keys :: "string list" where
  "read_only_keys =
    [''id'', ''created_time'', ''last_edited_time'', ''created_by'', ''last_edited_by'',
     ''has_children'', ''parent'', ''archived'']"

text \<open>A block is the object of its own properties. The object literal
  \<open>{ type, [type]: v }\<close> defines \<open>type\<close> and then the computed key, which replaces the
  first when the two keys coincide.\<close>

definition sanitizeBlock :: "obj \<Rightarrow> js_error + obj" where
  "sanitizeBlock block =
    (let type = getProp block ''type'' in
     case to_string type of
       Inl e \<Rightarrow> Inl e
     | Inr key \<Rightarrow>
         (let content = getProp block key in
          if \<not> truthy content then Inr (AList.update key (Obj []) [(''type'', type)])
          else
            (let sanitized = fold AList.delete read_only_keys (spread content)
             in Inr (AList.update key (Obj sanitized) [(''type'', type)]))))"

text \<open>The children of a new page:
  \<open>blocks.filter((b) => b.type !== 'child_database' && b.type !== 'child_page').map(sanitizeBlock)\<close>.\<close>

definition keep_block :: "obj \<Rightarrow> bool" where
  "keep_block b \<longleftrightarrow> getProp b ''type'' \<noteq> Str ''child_database'' \<and> getProp b ''type'' \<noteq> Str ''child_page''"

definition sanitize_children :: "obj list \<Rightarrow> js_error + obj list" where
  "sanitize_children blocks = collect (map sanitizeBlock (filter keep_block blocks))"

section \<open>Retry wrapper: notion-client.js\<close>

definition MAX_RETRIES :: nat where
  "MAX_RETRIES = 3"

definition API_INTERVAL_MS :: nat where
  "API_INTERVAL_MS = 350"

text \<open>What the wrapper does, in order: the attempts it makes (numbered as the loop
  counter) and the sleeps, with their duration in milliseconds. \<open>None\<close> is the duration
  computed from a \<open>retry-after\<close> header that is not a sequence of decimal digits, which
  is not modelled.\<close>

datatype event = Attempt nat | Sleep "nat option"

fun err_code :: "js_error \<Rightarrow> string option" where
  "err_code (ApiError e) = code e"
| "err_code e = None"

fun err_status :: "js_error \<Rightarrow> int option" where
  "err_status (ApiError e) = status e"
| "err_status e = None"

text \<open>\<open>error.headers?.['retry-after']\<close>: the property of that name. A plain object
  has it when the header is there; a \<open>Headers\<close> object never has it.\<close>

fun err_retry_after :: "js_error \<Rightarrow> string option" where
  "err_retry_after (ApiError e) =
     (case headers e of
        NoHeaders \<Rightarrow> None
      | PlainHeaders hs \<Rightarrow> map_of hs ''retry-after''
      | FetchHeaders hs \<Rightarrow> None)"
| "err_retry_after e = None"

text \<open>The number a header of decimal digits denotes.\<close>

definition digit_val :: "char \<Rightarrow> nat option" where
  "digit_val c =
    (let n = (of_char c :: nat) in if 48 \<le> n \<and> n \<le> 57 then Some (n - 48) else None)"

fun parse_nat :: "nat \<Rightarrow> string \<Rightarrow> nat option" where
  "parse_nat acc [] = Some acc"
| "parse_nat acc (c # cs) =
     (case digit_val c of None \<Rightarrow> None | Some d \<Rightarrow> parse_nat (10 * acc + d) cs)"

text \<open>\<open>(error.headers?.['retry-after'] || 60) * 1000\<close>: an absent or empty value
  gives 60 seconds; a value of digits gives its number of seconds.\<close>

definition retry_after_ms :: "js_error \<Rightarrow> nat option" where
  "retry_after_ms error =
    (case err_retry_after error of
       None \<Rightarrow> Some (60 * 1000)
     | Some h \<Rightarrow>
         if h = [] then Some (60 * 1000)
         else (case parse_nat 0 h of None \<Rightarrow> None | Some n \<Rightarrow> Some (n * 1000)))"

definition isRetryable :: "js_error \<Rightarrow> bool" where
  "isRetryable error =
    (if (case err_code error of
           None \<Rightarrow> False
         | Some c \<Rightarrow> c \<in> set [''ECONNREFUSED'', ''ECONNRESET'', ''ETIMEDOUT'', ''rate_limited''])
     then True
     else if (case err_status error of None \<Rightarrow> False | Some s \<Rightarrow> s \<ge> 500) then True
     else False)"

text \<open>The loop of \<open>withRetry\<close> from the attempt \<open>attempt\<close> on. The call \<open>fn\<close> acts on
  the state of the remote store and returns or throws. Leaving the loop returns
  \<open>undefined\<close>, which is \<open>None\<close> here.\<close>

function withRetry_from ::
  "('w \<Rightarrow> (js_error + 'a) \<times> 'w) \<Rightarrow> nat \<Rightarrow> 'w \<times> event list
     \<Rightarrow> (js_error + 'a option) \<times> 'w \<times> event list" where
  "withRetry_from fn attempt (w, log) =
    (if attempt \<le> MAX_RETRIES then
       (case fn w of
          (Inr result, w') \<Rightarrow>
            (Inr (Some result), w', log @ [Attempt attempt, Sleep (Some API_INTERVAL_MS)])
        | (Inl error, w') \<Rightarrow>
            if err_code error = Some ''rate_limited'' then
              withRetry_from fn (attempt + 1)
                (w', log @ [Attempt attempt, Sleep (retry_after_ms error)])
            else if attempt < MAX_RETRIES \<and> isRetryable error then
              withRetry_from fn (attempt + 1)
                (w', log @ [Attempt attempt, Sleep (Some (2 ^ attempt * 1000))])
            else (Inl error, w', log @ [Attempt attempt]))
     else (Inr None, w, log))"
  by pat_completeness auto
termination
  by (relation "measure (\<lambda>(fn, attempt, s). MAX_RETRIES + 1 - attempt)") auto

definition withRetry ::
  "('w \<Rightarrow> (js_error + 'a) \<times> 'w) \<Rightarrow> 'w \<times> event list \<Rightarrow> (js_error + 'a option) \<times> 'w \<times> event list" where
  "withRetry fn s = withRetry_from fn 1 s"

text \<open>The two filters the program queries with: the status of a master record, and the
  back-reference number of a public record.\<close>

datatype filter = StatusEquals string | MasterIdEquals jsval

section \<open>The store client: notion-client.js\<close>

text \<open>The four calls of the SDK that the client makes, as parameters: each acts on the
  state \<open>'w\<close> of the remote store and returns its answer or throws. A listing answers
  with one page of results, a flag and the cursor of the next page.\<close>

record 'a list_response =
  results :: "'a list"
  has_more :: jsval
  next_cursor :: jsval

record 'w notion_sdk =
  databases_query :: "jsval \<Rightarrow> filter \<Rightarrow> jsval \<Rightarrow> 'w \<Rightarrow> (js_error + page list_response) \<times> 'w"
  pages_create :: "jsval \<Rightarrow> obj \<Rightarrow> obj list option \<Rightarrow> 'w \<Rightarrow> (js_error + jsval) \<times> 'w"
  pages_update :: "jsval \<Rightarrow> 'w \<Rightarrow> (js_error + jsval) \<times> 'w"
  blocks_children_list :: "jsval \<Rightarrow> jsval \<Rightarrow> 'w \<Rightarrow> (js_error + obj list_response) \<times> 'w"

text \<open>\<open>queryDatabase\<close>: the \<open>do ... while (cursor)\<close> loop, from the pages collected so
  far and the current cursor. It need not end: a store may hand out cursors for ever. The
  wrapper returning \<open>undefined\<close> makes \<open>response.results\<close> throw.\<close>

partial_function (option) queryDatabase_from ::
  "'w notion_sdk \<Rightarrow> jsval \<Rightarrow> filter \<Rightarrow> page list \<Rightarrow> jsval \<Rightarrow> 'w \<times> event list
     \<Rightarrow> ((js_error + page list) \<times> 'w \<times> event list) option" where
  "queryDatabase_from sdk databaseId flt pages cursor s =
    (case withRetry (databases_query sdk databaseId flt cursor) s of
       (Inl e, s') \<Rightarrow> Some (Inl e, s')
     | (Inr None, s') \<Rightarrow> Some (Inl TypeError, s')
     | (Inr (Some response), s') \<Rightarrow>
         (let pages' = pages @ results response;
              cursor' = (if truthy (has_more response) then next_cursor response else Undefined)
          in if truthy cursor' then queryDatabase_from sdk databaseId flt pages' cursor' s'
             else Some (Inr pages', s')))"

definition queryDatabase ::
  "'w notion_sdk \<Rightarrow> jsval \<Rightarrow> filter \<Rightarrow> 'w \<times> event list
     \<Rightarrow> ((js_error + page list) \<times> 'w \<times> event list) option" where
  "queryDatabase sdk databaseId flt s = queryDatabase_from sdk databaseId flt [] Undefined s"

text \<open>\<open>createPage\<close> and \<open>archivePage\<close> return what the wrapper returns, which is
  \<open>undefined\<close> when the wrapper leaves its loop. The children are sent only when there
  are some.\<close>

definition createPage ::
  "'w notion_sdk \<Rightarrow> jsval \<Rightarrow> obj \<Rightarrow> obj list \<Rightarrow> 'w \<times> event list
     \<Rightarrow> (js_error + jsval) \<times> 'w \<times> event list" where
  "createPage sdk databaseId props children s =
    (case withRetry
            (pages_create sdk databaseId props (if length children > 0 then Some children else None)) s of
       (Inl e, s') \<Rightarrow> (Inl e, s')
     | (Inr None, s') \<Rightarrow> (Inr Undefined, s')
     | (Inr (Some r), s') \<Rightarrow> (Inr r, s'))"

definition archivePage ::
  "'w notion_sdk \<Rightarrow> jsval \<Rightarrow> 'w \<times> event list \<Rightarrow> (js_error + jsval) \<times> 'w \<times> event list" where
  "archivePage sdk pageId s =
    (case withRetry (pages_update sdk pageId) s of
       (Inl e, s') \<Rightarrow> (Inl e, s')
     | (Inr None, s') \<Rightarrow> (Inr Undefined, s')
     | (Inr (Some r), s') \<Rightarrow> (Inr r, s'))"

partial_function (option) getPageBlocks_from ::
  "'w notion_sdk \<Rightarrow> jsval \<Rightarrow> obj list \<Rightarrow> jsval \<Rightarrow> 'w \<times> event list
     \<Rightarrow> ((js_error + obj list) \<times> 'w \<times> event list) option" where
  "getPageBlocks_from sdk pageId blocks cursor s =
    (case withRetry (blocks_children_list sdk pageId cursor) s of
       (Inl e, s') \<Rightarrow> Some (Inl e, s')
     | (Inr None, s') \<Rightarrow> Some (Inl TypeError, s')
     | (Inr (Some response), s') \<Rightarrow>
         (let blocks' = blocks @ results response;
              cursor' = (if truthy (has_more response) then next_cursor response else Undefined)
          in if truthy cursor' then getPageBlocks_from sdk pageId blocks' cursor' s'
             else Some (Inr blocks', s')))"

definition getPageBlocks ::
  "'w notion_sdk \<Rightarrow> jsval \<Rightarrow> 'w \<times> event list \<Rightarrow> ((js_error + obj list) \<times> 'w \<times> event list) option" where
  "getPageBlocks sdk pageId s = getPageBlocks_from sdk pageId [] Undefined s"

section \<open>Configuration: utils.js\<close>

record db_config =
  master :: jsval
  public :: obj




section \<open>The operations of the store client\<close>


text \<open>The four operations of notion-client.js, as the orchestrators use them: each acts
  on the state \<open>'s\<close> of the world outside the program and returns, throws (\<open>Inl\<close>), or
  does not come back (\<open>None\<close>).\<close>

record 's client_ops =
  op_query :: "jsval \<Rightarrow> filter \<Rightarrow> 's \<Rightarrow> ((js_error + page list) \<times> 's) option"
  op_create :: "jsval \<Rightarrow> obj \<Rightarrow> obj list \<Rightarrow> 's \<Rightarrow> ((js_error + jsval) \<times> 's) option"
  op_archive :: "jsval \<Rightarrow> 's \<Rightarrow> ((js_error + jsval) \<times> 's) option"
  op_blocks :: "jsval \<Rightarrow> 's \<Rightarrow> ((js_error + obj list) \<times> 's) option"

text \<open>The client of notion-client.js over an SDK is one such set of operations; its
  state is the state of the remote store together with the events of the retry
  wrapper.\<close>

definition notion_client :: "'w notion_sdk \<Rightarrow> ('w \<times> event list) client_ops" where
  "notion_client sdk =
    \<lparr> op_query = queryDatabase sdk,
      op_create = (\<lambda>databaseId props children s. Some (createPage sdk databaseId props children s)),
      op_archive = (\<lambda>pageId s. Some (archivePage sdk pageId s)),
      op_blocks = getPageBlocks sdk \<rparr>"

text \<open>The calls an orchestrator makes, in order, kept beside the state of the world and
  the counters of the run.\<close>

datatype call =
    QueryCall jsval filter
  | BlocksCall jsval
  | CreateCall jsval obj "obj list"
  | ArchiveCall jsval

record 's run =
  store :: 's
  calls :: "call list"
  errorCount :: nat

record 's sync_run = "'s run" +
  createdCount :: nat
  skippedCount :: nat

record 's cleanup_run = "'s run" +
  archivedCount :: nat

definition anken_type :: string where
  "anken_type = [CHR 0xE6, CHR 0xA1, CHR 0x88, CHR 0xE4, CHR 0xBB, CHR 0xB6, CHR 0xE3, CHR 0x82, CHR 0xBF, CHR 0xE3, CHR 0x82, CHR 0xA4, CHR 0xE3, CHR 0x83, CHR 0x97]"

definition level_prop :: string where
  "level_prop = [CHR 0xE3, CHR 0x83, CHR 0xAC, CHR 0xE3, CHR 0x83, CHR 0x99, CHR 0xE3, CHR 0x83, CHR 0xAB]"


definition boshuu_shuuryou :: string where
  "boshuu_shuuryou = [CHR 0xE5, CHR 0x8B, CHR 0x9F, CHR 0xE9, CHR 0x9B, CHR 0x86, CHR 0xE7, CHR 0xB5, CHR 0x82, CHR 0xE4, CHR 0xBA, CHR 0x86]"

text \<open>\<open>job.properties['...']?.select?.name\<close> and \<open>job.properties['...']?.unique_id?.number\<close>\<close>

definition select_name :: "page \<Rightarrow> string \<Rightarrow> jsval" where
  "select_name job k = opt_chain (opt_chain (getProp (properties job) k) ''select'') ''name''"

definition unique_number :: "page \<Rightarrow> jsval" where
  "unique_number job = opt_chain (opt_chain (getProp (properties job) anken_id) ''unique_id'') ''number''"

section \<open>Forward sync: the sync script\<close>

text \<open>\<open>created.id.substring(0, 8)\<close> evaluates only when the answer of the store has a
  string as its \<open>id\<close>; otherwise it throws.\<close>

definition has_string_id :: "jsval \<Rightarrow> bool" where
  "has_string_id created \<longleftrightarrow>
    \<not> nullish created \<and> (case field_of created ''id'' of Str s \<Rightarrow> True | _ \<Rightarrow> False)"

text \<open>One round of the loop over the target keys: the existence check, then the
  creation. Whatever is thrown inside is caught and counted.\<close>

definition syncTarget ::
  "'s client_ops \<Rightarrow> obj \<Rightarrow> jsval \<Rightarrow> obj \<Rightarrow> obj list \<Rightarrow> string \<Rightarrow> 's sync_run
     \<Rightarrow> 's sync_run option" where
  "syncTarget ops publicDbs masterId props children dbKey r =
    (let targetDbId = getProp publicDbs dbKey in
     if \<not> truthy targetDbId then Some (r\<lparr>errorCount := errorCount r + 1\<rparr>)
     else
       (let r1 = r\<lparr>calls := calls r @ [QueryCall targetDbId (MasterIdEquals masterId)]\<rparr> in
        case op_query ops targetDbId (MasterIdEquals masterId) (store r) of
          None \<Rightarrow> None
        | Some (Inl err, s1) \<Rightarrow> Some (r1\<lparr>store := s1, errorCount := errorCount r + 1\<rparr>)
        | Some (Inr existing, s1) \<Rightarrow>
            if length existing > 0
            then Some (r1\<lparr>store := s1, skippedCount := skippedCount r + 1\<rparr>)
            else
              (let r2 = r1\<lparr>calls := calls r1 @ [CreateCall targetDbId props children]\<rparr> in
               case op_create ops targetDbId props children s1 of
                 None \<Rightarrow> None
               | Some (Inl err, s2) \<Rightarrow> Some (r2\<lparr>store := s2, errorCount := errorCount r + 1\<rparr>)
               | Some (Inr created, s2) \<Rightarrow>
                   if has_string_id created
                   then Some (r2\<lparr>store := s2, createdCount := createdCount r + 1\<rparr>)
                   else Some (r2\<lparr>store := s2, errorCount := errorCount r + 1\<rparr>))))"

fun syncTargets ::
  "'s client_ops \<Rightarrow> obj \<Rightarrow> jsval \<Rightarrow> obj \<Rightarrow> obj list \<Rightarrow> string list \<Rightarrow> 's sync_run
     \<Rightarrow> 's sync_run option" where
  "syncTargets ops publicDbs masterId props children [] r = Some r"
| "syncTargets ops publicDbs masterId props children (dbKey # dbKeys) r =
     (case syncTarget ops publicDbs masterId props children dbKey r of
        None \<Rightarrow> None
      | Some r' \<Rightarrow> syncTargets ops publicDbs masterId props children dbKeys r')"

text \<open>The content of the page: fetched and sanitized inside a \<open>try\<close> of its own, empty
  when anything there throws.\<close>

definition fetch_children :: "'s client_ops \<Rightarrow> page \<Rightarrow> 's sync_run \<Rightarrow> (obj list \<times> 's sync_run) option" where
  "fetch_children ops job r =
    (let r1 = r\<lparr>calls := calls r @ [BlocksCall (page_id job)]\<rparr> in
     case op_blocks ops (page_id job) (store r) of
       None \<Rightarrow> None
     | Some (Inl err, s1) \<Rightarrow> Some ([], r1\<lparr>store := s1\<rparr>)
     | Some (Inr blocks, s1) \<Rightarrow>
         Some (case sanitize_children blocks of Inl err \<Rightarrow> [] | Inr cs \<Rightarrow> cs, r1\<lparr>store := s1\<rparr>))"

text \<open>One round of the loop over the open records. \<open>Inl\<close> is an exception that leaves
  the loop for the outer \<open>catch\<close>, which ends the process. The warning of the
  validation prints the category, the tier and the identifier, which throws when one of
  them has no string conversion. The other messages of the loop print strings, counts and
  the category after routing has converted it.\<close>

definition syncJob ::
  "'s client_ops \<Rightarrow> obj \<Rightarrow> string list \<Rightarrow> page \<Rightarrow> 's sync_run \<Rightarrow> (js_error + 's sync_run) option" where
  "syncJob ops publicDbs copyFields job r =
    (case getPageTitle job of
       Inl e \<Rightarrow> Some (Inl e)
     | Inr jobName \<Rightarrow>
         (let jobType = select_name job anken_type;
              level = select_name job level_prop;
              masterId = unique_number job in
          if \<not> truthy jobType \<or> \<not> truthy level \<or> nullish masterId
          then
            (case template [Str jobName, jobType, level, masterId] of
               Inl e \<Rightarrow> Some (Inl e)
             | Inr warning \<Rightarrow> Some (Inr (r\<lparr>errorCount := errorCount r + 1\<rparr>)))
          else
            (case getTargetDatabases jobType level of
               Inl e \<Rightarrow> Some (Inl e)
             | Inr targetDbKeys \<Rightarrow>
                 if length targetDbKeys = 0
                 then Some (Inr (r\<lparr>skippedCount := skippedCount r + 1\<rparr>))
                 else
                   (case mapProperties job copyFields of
                      Inl e \<Rightarrow> Some (Inl e)
                    | Inr props \<Rightarrow>
                        (case fetch_children ops job r of
                           None \<Rightarrow> None
                         | Some (children, r1) \<Rightarrow>
                             map_option Inr
                               (syncTargets ops publicDbs masterId props children targetDbKeys r1))))))"

fun syncJobs ::
  "'s client_ops \<Rightarrow> obj \<Rightarrow> string list \<Rightarrow> page list \<Rightarrow> 's sync_run \<Rightarrow> (js_error + 's sync_run) option" where
  "syncJobs ops publicDbs copyFields [] r = Some (Inr r)"
| "syncJobs ops publicDbs copyFields (job # jobs) r =
     (case syncJob ops publicDbs copyFields job r of
        None \<Rightarrow> None
      | Some (Inl e) \<Rightarrow> Some (Inl e)
      | Some (Inr r') \<Rightarrow> syncJobs ops publicDbs copyFields jobs r')"


section \<open>Cleanup: cleanup.js\<close>

text \<open>The loop over the pages found in one collection. It stops at the first exception,
  which it hands to the \<open>catch\<close> of the collection together with the run so far.
  \<open>page.id.substring(0, 8)\<close> throws after the call when the identifier is no string.\<close>

fun archive_found ::
  "'s client_ops \<Rightarrow> page list \<Rightarrow> 's cleanup_run \<Rightarrow> (js_error option \<times> 's cleanup_run) option" where
  "archive_found ops [] r = Some (None, r)"
| "archive_found ops (p # ps) r =
     (let r1 = r\<lparr>calls := calls r @ [ArchiveCall (page_id p)]\<rparr> in
      case op_archive ops (page_id p) (store r) of
        None \<Rightarrow> None
      | Some (Inl err, s1) \<Rightarrow> Some (Some err, r1\<lparr>store := s1\<rparr>)
      | Some (Inr res, s1) \<Rightarrow>
          (case page_id p of
             Str i \<Rightarrow> archive_found ops ps (r1\<lparr>store := s1, archivedCount := archivedCount r + 1\<rparr>)
           | _ \<Rightarrow> Some (Some TypeError, r1\<lparr>store := s1\<rparr>)))"

definition cleanupDb :: "'s client_ops \<Rightarrow> jsval \<Rightarrow> string \<times> jsval \<Rightarrow> 's cleanup_run \<Rightarrow> 's cleanup_run option" where
  "cleanupDb ops masterId entry r =
    (case entry of (dbKey, dbId) \<Rightarrow>
       if \<not> truthy dbId then Some r
       else
         (let r1 = r\<lparr>calls := calls r @ [QueryCall dbId (MasterIdEquals masterId)]\<rparr> in
          case op_query ops dbId (MasterIdEquals masterId) (store r) of
            None \<Rightarrow> None
          | Some (Inl err, s1) \<Rightarrow> Some (r1\<lparr>store := s1, errorCount := errorCount r + 1\<rparr>)
          | Some (Inr found, s1) \<Rightarrow>
              (case archive_found ops found (r1\<lparr>store := s1\<rparr>) of
                 None \<Rightarrow> None
               | Some (None, r2) \<Rightarrow> Some r2
               | Some (Some err, r2) \<Rightarrow> Some (r2\<lparr>errorCount := errorCount r2 + 1\<rparr>))))"

fun cleanupDbs :: "'s client_ops \<Rightarrow> jsval \<Rightarrow> (string \<times> jsval) list \<Rightarrow> 's cleanup_run \<Rightarrow> 's cleanup_run option" where
  "cleanupDbs ops masterId [] r = Some r"
| "cleanupDbs ops masterId (entry # entries) r =
     (case cleanupDb ops masterId entry r of
        None \<Rightarrow> None
      | Some r' \<Rightarrow> cleanupDbs ops masterId entries r')"

text \<open>One round of the loop over the closed records. The message before the search
  prints the identifier, which throws when it has no string conversion.\<close>

definition cleanupJob ::
  "'s client_ops \<Rightarrow> obj \<Rightarrow> page \<Rightarrow> 's cleanup_run \<Rightarrow> (js_error + 's cleanup_run) option" where
  "cleanupJob ops publicDbs job r =
    (case getPageTitle job of
       Inl e \<Rightarrow> Some (Inl e)
     | Inr jobName \<Rightarrow>
         (let masterId = unique_number job in
          if nullish masterId then Some (Inr (r\<lparr>errorCount := errorCount r + 1\<rparr>))
          else
            (case template [Str jobName, masterId] of
               Inl e \<Rightarrow> Some (Inl e)
             | Inr message \<Rightarrow> map_option Inr (cleanupDbs ops masterId publicDbs r))))"

fun cleanupJobs ::
  "'s client_ops \<Rightarrow> obj \<Rightarrow> page list \<Rightarrow> 's cleanup_run \<Rightarrow> (js_error + 's cleanup_run) option" where
  "cleanupJobs ops publicDbs [] r = Some (Inr r)"
| "cleanupJobs ops publicDbs (job # jobs) r =
     (case cleanupJob ops publicDbs job r of
        None \<Rightarrow> None
      | Some (Inl e) \<Rightarrow> Some (Inl e)
      | Some (Inr r') \<Rightarrow> cleanupJobs ops publicDbs jobs r')"

definition cleanup_main ::
  "'s client_ops \<Rightarrow> db_config \<Rightarrow> 's \<Rightarrow> (js_error + 's cleanup_run) option" where
  "cleanup_main ops dbConfig s =
    (case op_query ops (master dbConfig) (StatusEquals boshuu_shuuryou) s of
       None \<Rightarrow> None
     | Some (Inl e, s1) \<Rightarrow> Some (Inl e)
     | Some (Inr closedJobs, s1) \<Rightarrow>
         (let r = \<lparr> store = s1, calls = [QueryCall (master dbConfig) (StatusEquals boshuu_shuuryou)],
                     errorCount = 0, archivedCount = 0 \<rparr> in
          if length closedJobs = 0 then Some (Inr r)
          else cleanupJobs ops (public dbConfig) closedJobs r))"

section \<open>Reading a run, and inputs for the examples\<close>

text \<open>The attempt numbers among the events of the retry wrapper, in order.\<close>

fun attempts_of :: "event list \<Rightarrow> nat list" where
  "attempts_of [] = []"
| "attempts_of (Attempt k # evs) = k # attempts_of evs"
| "attempts_of (Sleep d # evs) = attempts_of evs"

text \<open>A remote call that answers from a script: the state is the list of the outcomes
  still to come.\<close>

definition scripted :: "(js_error + jsval) list \<Rightarrow> (js_error + jsval) \<times> (js_error + jsval) list" where
  "scripted w = (case w of [] \<Rightarrow> (Inr Undefined, []) | x # xs \<Rightarrow> (x, xs))"

text \<open>Errors given by their fields. The \<open>retry-after\<close> value, when there is one, is
  a property of a plain object.\<close>

definition rate_limited_error :: "string option \<Rightarrow> js_error" where
  "rate_limited_error h =
    ApiError \<lparr> code = Some ''rate_limited'', status = Some 429,
               headers = (case h of None \<Rightarrow> NoHeaders | Some v \<Rightarrow> PlainHeaders [(''retry-after'', v)]) \<rparr>"

definition server_error :: js_error where
  "server_error = ApiError \<lparr> code = None, status = Some 503, headers = NoHeaders \<rparr>"

definition validation_error :: js_error where
  "validation_error =
    ApiError \<lparr> code = Some ''validation_error'', status = Some 400, headers = NoHeaders \<rparr>"

text \<open>The error of the store client for a rate-limited answer of the store that advises
  a wait of the given number of seconds.\<close>

definition client_rate_limited_error :: "string \<Rightarrow> js_error" where
  "client_rate_limited_error seconds =
    ApiError \<lparr> code = Some ''rate_limited'', status = Some 429,
               headers = FetchHeaders [(''content-type'', ''application/json''), (''retry-after'', seconds)] \<rparr>"

text \<open>A remote call that is rate-limited every time.\<close>

definition always_rate_limited :: "unit \<Rightarrow> (js_error + jsval) \<times> unit" where
  "always_rate_limited w = (Inl (rate_limited_error None), w)"

text \<open>Blocks for the examples: a paragraph whose payload also carries each of the
  server-assigned attributes, a divider without payload, and a child page.\<close>

definition paragraph_payload :: obj where
  "paragraph_payload =
    [(''rich_text'', Arr [Obj [(''plain_text'', Str ''hello'')]]),
     (''id'', Str ''inner''),
     (''created_time'', Str ''2026-01-01T00:00:00.000Z''),
     (''last_edited_time'', Str ''2026-01-02T00:00:00.000Z''),
     (''created_by'', Obj [(''object'', Str ''user''), (''id'', Str ''u1'')]),
     (''last_edited_by'', Obj [(''object'', Str ''user''), (''id'', Str ''u2'')]),
     (''has_children'', Bool False),
     (''parent'', Obj [(''type'', Str ''page_id''), (''page_id'', Str ''p1'')]),
     (''archived'', Bool False),
     (''color'', Str ''default'')]"

definition paragraph_block :: obj where
  "paragraph_block =
    [(''object'', Str ''block''),
     (''id'', Str ''b1''),
     (''parent'', Obj [(''page_id'', Str ''p1'')]),
     (''created_time'', Str ''2026-01-01T00:00:00.000Z''),
     (''has_children'', Bool False),
     (''archived'', Bool False),
     (''type'', Str ''paragraph''),
     (''paragraph'', Obj paragraph_payload)]"

definition divider_block :: obj where
  "divider_block = [(''id'', Str ''b2''), (''type'', Str ''divider'')]"

definition child_page_block :: obj where
  "child_page_block =
    [(''id'', Str ''b3''), (''type'', Str ''child_page''), (''child_page'', Obj [(''title'', Str ''sub'')])]"




text \<open>A master record as the store returns it, with one property of each kind, and a
  list of fields to copy. The list names the two reserved fields, a field the record does
  not have (\<open>missing\<close>), and leaves out the field \<open>internal\<close>.\<close>

definition sample_page :: page where
  "sample_page =
    \<lparr> page_id = Str ''master-1'',
      properties =
        [(anken_mei, Obj [(''type'', Str ''title''),
                          (''title'', Arr [Obj [(''plain_text'', Str ''Test job'')]])]),
         (anken_id, Obj [(''type'', Str ''unique_id''),
                         (''unique_id'', Obj [(''number'', Num 1001), (''prefix'', Str ''JOB'')])]),
         (anken_type, Obj [(''type'', Str ''select''), (''select'', Obj [(''name'', Str douga_seisaku)])]),
         (level_prop, Obj [(''type'', Str ''select''), (''select'', Obj [(''name'', Str level1)])]),
         (anken_shousai, Obj [(''type'', Str ''rich_text''),
                              (''rich_text'', Arr [Obj [(''plain_text'', Str ''details'')]])]),
         (''category'', Obj [(''type'', Str ''select''),
                             (''select'', Obj [(''name'', Str ''YouTube''), (''color'', Str ''red'')])]),
         (''contract'', Obj [(''type'', Str ''select''), (''select'', Null)]),
         (''tags'', Obj [(''type'', Str ''multi_select''),
                         (''multi_select'', Arr [Obj [(''name'', Str ''a''), (''color'', Str ''blue'')],
                                                 Obj [(''name'', Str ''b'')]])]),
         (''skills'', Obj [(''type'', Str ''multi_select''), (''multi_select'', Arr [])]),
         (''reward'', Obj [(''type'', Str ''number''), (''number'', Num 50000)]),
         (''summary'', Obj [(''type'', Str ''rich_text''),
                            (''rich_text'', Arr [Obj [(''plain_text'', Str ''text'')]])]),
         (''form'', Obj [(''type'', Str ''url''), (''url'', Str ''https://example.com/form'')]),
         (''state'', Obj [(''type'', Str ''status''), (''status'', Obj [(''name'', Str ''open'')])]),
         (''internal'', Obj [(''type'', Str ''number''), (''number'', Num 7)])] \<rparr>"

definition sample_copy :: "string list" where
  "sample_copy =
    [anken_mei, ''category'', ''contract'', ''tags'', ''skills'', ''reward'', ''summary'', ''form'',
     ''state'', ''missing'', anken_shousai]"

definition sample_mapped :: obj where
  "sample_mapped =
    [(''category'', Obj [(''select'', Obj [(''name'', Str ''YouTube'')])]),
     (''contract'', Obj [(''select'', Null)]),
     (''tags'', Obj [(''multi_select'', Arr [Obj [(''name'', Str ''a'')], Obj [(''name'', Str ''b'')]])]),
     (''skills'', Obj [(''multi_select'', Arr [])]),
     (''reward'', Obj [(''number'', Num 50000)]),
     (''summary'', Obj [(''rich_text'', Arr [Obj [(''plain_text'', Str ''text'')]])]),
     (''form'', Obj [(''url'', Str ''https://example.com/form'')]),
     (''state'', Obj [(''rich_text'', Arr [])]),
     (anken_mei, Obj [(''title'', Arr [Obj [(''plain_text'', Str ''Test job'')]])]),
     (master_anken_id, Obj [(''number'', Num 1001)])]"

text \<open>A record without any property, and an open record without a category.\<close>

definition bare_page :: page where
  "bare_page = \<lparr> page_id = Str ''master-0'', properties = [] \<rparr>"



definition sample_public :: obj where
  "sample_public =
    [(''video_level1'', Str ''db-v1''), (''video_level2'', Str ''db-v2''),
     (''video_level3'', Str ''db-v3''), (''design_level1'', Str ''db-d1''),
     (''design_level2'', Str ''db-d2''), (''design_level3'', Str ''db-d3'')]"


text \<open>Client operations that answer as told, whatever the state of the world: the
  listing of the master records, the pages found by back-reference in each collection,
  and the outcome of every archive call. A creation answers with a new page, the content
  of a page is one paragraph.\<close>

definition stub_ops ::
  "page list \<Rightarrow> (jsval \<Rightarrow> page list) \<Rightarrow> (jsval \<Rightarrow> js_error + jsval) \<Rightarrow> unit client_ops" where
  "stub_ops listing found archived =
    \<lparr> op_query = (\<lambda>db flt s.
         Some (Inr (case flt of StatusEquals st \<Rightarrow> listing | MasterIdEquals m \<Rightarrow> found db), s)),
      op_create = (\<lambda>db props children s. Some (Inr (Obj [(''id'', Str ''new-page-0001'')]), s)),
      op_archive = (\<lambda>pid s. Some (archived pid, s)),
      op_blocks = (\<lambda>pid s. Some (Inr [paragraph_block], s)) \<rparr>"

definition public_copy :: "string \<Rightarrow> page" where
  "public_copy i = \<lparr> page_id = Str i, properties = [(master_anken_id, Obj [(''number'', Num 1001)])] \<rparr>"

text \<open>Where the copies of the record 1001 are in the examples: two in the first video
  collection, one in the third, none elsewhere.\<close>

definition found_in :: "jsval \<Rightarrow> page list" where
  "found_in db =
    (if db = Str ''db-v1'' then [public_copy ''copy-a'', public_copy ''copy-b'']
     else if db = Str ''db-v3'' then [public_copy ''copy-c'']
     else [])"

definition archive_ok :: "jsval \<Rightarrow> js_error + jsval" where
  "archive_ok pid = Inr (Obj [(''id'', pid), (''archived'', Bool True)])"





definition cleanup_start :: "unit cleanup_run" where
  "cleanup_start = \<lparr> store = (), calls = [], errorCount = 0, archivedCount = 0 \<rparr>"




text \<open>An SDK whose every call is rate-limited.\<close>

definition rate_limited_sdk :: "unit notion_sdk" where
  "rate_limited_sdk =
    \<lparr> databases_query = (\<lambda>databaseId flt cursor w. (Inl (rate_limited_error None), w)),
      pages_create = (\<lambda>databaseId props children w. (Inl (rate_limited_error None), w)),
      pages_update = (\<lambda>pageId w. (Inl (rate_limited_error None), w)),
      blocks_children_list = (\<lambda>pageId cursor w. (Inl (rate_limited_error None), w)) \<rparr>"

section \<open>Properties of the routing\<close>

lemmas routing_defs =
  getTargetDatabases_def getTypePrefix_def level_key_def mapping_def js_or_def getProp_def
  douga_seisaku_def design_seisaku_def level1_def level2_def level3_def
  object_prototype_keys_def native_text_def

text \<open>The cascade of the two known categories.\<close>

lemma getTargetDatabases_video:
  "getTargetDatabases (Str douga_seisaku) (Str level1) = Inr [''video_level1'', ''video_level2'', ''video_level3'']"
  "getTargetDatabases (Str douga_seisaku) (Str level2) = Inr [''video_level2'', ''video_level3'']"
  "getTargetDatabases (Str douga_seisaku) (Str level3) = Inr [''video_level3'']"
  by (simp_all add: routing_defs)

lemma getTargetDatabases_design:
  "getTargetDatabases (Str design_seisaku) (Str level1) = Inr [''design_level1'', ''design_level2'', ''design_level3'']"
  "getTargetDatabases (Str design_seisaku) (Str level2) = Inr [''design_level2'', ''design_level3'']"
  "getTargetDatabases (Str design_seisaku) (Str level3) = Inr [''design_level3'']"
  by (simp_all add: routing_defs)

text \<open>An unknown tier has no target, whatever the category; a category that is neither
  known nor the name of a member of \<open>Object.prototype\<close> has none either.\<close>

lemma getTargetDatabases_unknown_level:
  "level \<notin> {Str level1, Str level2, Str level3} \<Longrightarrow> getTargetDatabases (Str c) level = Inr []"
  by (simp add: getTargetDatabases_def getTypePrefix_def)

lemma getTargetDatabases_unknown_category:
  "c \<notin> {douga_seisaku, design_seisaku} \<Longrightarrow> c \<notin> set object_prototype_keys \<Longrightarrow>
   getTargetDatabases (Str c) level = Inr []"
  by (simp add: getTargetDatabases_def getTypePrefix_def getProp_def mapping_def js_or_def)

text \<open>
  Claim C2: for every pair of a category and a tier the routing returns the documented
  cascade, and the empty list for an unknown category or an unknown tier.

  The code does not do this for every unknown category. The lookup \<open>mapping[jobType]\<close>
  also finds what the object literal inherits, so for the category \<open>constructor\<close>
  (and the other member names of \<open>Object.prototype\<close>) the prefix is a function, which
  is truthy, and a tier 1 record is routed to three keys made of the text of that function
  instead of the empty list.
\<close>

theorem getTargetDatabases_inherited_category:
  "getTargetDatabases (Str ''constructor'') (Str level1) =
     Inr [''function Object() { [native code] }_level1'',
          ''function Object() { [native code] }_level2'',
          ''function Object() { [native code] }_level3'']"
  by (simp add: routing_defs)

section \<open>Properties of the retry wrapper\<close>

declare withRetry_from.simps [simp del]

lemma attempts_of_append: "attempts_of (xs @ ys) = attempts_of xs @ attempts_of ys"
  by (induction xs rule: attempts_of.induct) auto

text \<open>One round of the loop, case by case.\<close>

lemma withRetry_from_done:
  "MAX_RETRIES < attempt \<Longrightarrow> withRetry_from fn attempt (w, log) = (Inr None, w, log)"
  by (subst withRetry_from.simps) simp

lemma withRetry_from_ok:
  "attempt \<le> MAX_RETRIES \<Longrightarrow> fn w = (Inr result, w') \<Longrightarrow>
   withRetry_from fn attempt (w, log) =
     (Inr (Some result), w', log @ [Attempt attempt, Sleep (Some API_INTERVAL_MS)])"
  by (subst withRetry_from.simps) simp

lemma withRetry_from_rate_limited:
  "attempt \<le> MAX_RETRIES \<Longrightarrow> fn w = (Inl error, w') \<Longrightarrow> err_code error = Some ''rate_limited'' \<Longrightarrow>
   withRetry_from fn attempt (w, log) =
     withRetry_from fn (attempt + 1) (w', log @ [Attempt attempt, Sleep (retry_after_ms error)])"
  by (subst withRetry_from.simps) simp

lemma withRetry_from_backoff:
  "attempt < MAX_RETRIES \<Longrightarrow> fn w = (Inl error, w') \<Longrightarrow> err_code error \<noteq> Some ''rate_limited'' \<Longrightarrow>
   isRetryable error \<Longrightarrow>
   withRetry_from fn attempt (w, log) =
     withRetry_from fn (attempt + 1) (w', log @ [Attempt attempt, Sleep (Some (2 ^ attempt * 1000))])"
  by (subst withRetry_from.simps) simp

lemma withRetry_from_throw:
  "attempt \<le> MAX_RETRIES \<Longrightarrow> fn w = (Inl error, w') \<Longrightarrow> err_code error \<noteq> Some ''rate_limited'' \<Longrightarrow>
   \<not> (attempt < MAX_RETRIES \<and> isRetryable error) \<Longrightarrow>
   withRetry_from fn attempt (w, log) = (Inl error, w', log @ [Attempt attempt])"
  by (subst withRetry_from.simps) auto

text \<open>The attempts of the loop from \<open>attempt\<close> on are numbered consecutively and stop at
  \<open>MAX_RETRIES\<close>.\<close>

lemma extend_attempts:
  assumes "\<exists>evs n. L = (log @ pre) @ evs \<and> attempts_of evs = [Suc a..<n] \<and> n \<le> M"
    and "attempts_of pre = [a]" and "a < M"
  shows "\<exists>evs n. L = log @ evs \<and> attempts_of evs = [a..<n] \<and> n \<le> M \<and> a < n"
proof -
  from assms(1) obtain evs n where L: "L = (log @ pre) @ evs"
    and at: "attempts_of evs = [Suc a..<n]" and n: "n \<le> M" by blast
  show ?thesis
  proof (cases "Suc a < n")
    case True
    then have "[a..<n] = a # [Suc a..<n]" by (simp add: upt_conv_Cons)
    with L at n assms(2) True show ?thesis
      by (intro exI[of _ "pre @ evs"] exI[of _ n]) (simp add: attempts_of_append)
  next
    case False
    then have "attempts_of evs = []" using at by simp
    with L assms(2,3) show ?thesis
      by (intro exI[of _ "pre @ evs"] exI[of _ "Suc a"]) (simp add: attempts_of_append)
  qed
qed

lemma withRetry_from_log:
  "\<exists>evs n. snd (snd (withRetry_from fn attempt (w, log))) = log @ evs
     \<and> attempts_of evs = [attempt..<n] \<and> n \<le> Suc MAX_RETRIES
     \<and> (attempt \<le> MAX_RETRIES \<longrightarrow> attempt < n)"
proof (induction fn attempt "(w, log)" arbitrary: w log rule: withRetry_from.induct)
  case (1 fn attempt w log)
  show ?case
  proof (cases "attempt \<le> MAX_RETRIES")
    case False
    then show ?thesis by (auto simp: withRetry_from_done intro: exI[of _ 0])
  next
    case le: True
    obtain res w' where fw: "fn w = (res, w')" by (cases "fn w")
    show ?thesis
    proof (cases res)
      case (Inr result)
      with le fw show ?thesis
        apply (simp add: withRetry_from_ok del: upt_Suc)
        apply (rule exI[of _ "Suc attempt"]) by simp
    next
      case (Inl error)
      show ?thesis
      proof (cases "err_code error = Some ''rate_limited''")
        case True
        let ?log' = "log @ [Attempt attempt, Sleep (retry_after_ms error)]"
        have "\<exists>evs n. snd (snd (withRetry_from fn (attempt + 1) (w', ?log'))) = ?log' @ evs
            \<and> attempts_of evs = [Suc attempt..<n] \<and> n \<le> Suc MAX_RETRIES"
          using "1.hyps"(1)[OF le fw[symmetric] Inl True] by auto
        then have "\<exists>evs n. snd (snd (withRetry_from fn (attempt + 1) (w', ?log'))) = log @ evs
            \<and> attempts_of evs = [attempt..<n] \<and> n \<le> Suc MAX_RETRIES \<and> attempt < n"
          by (rule extend_attempts) (use le in auto)
        with le fw Inl True show ?thesis by (simp add: withRetry_from_rate_limited)
      next
        case nrl: False
        show ?thesis
        proof (cases "attempt < MAX_RETRIES \<and> isRetryable error")
          case True
          let ?log' = "log @ [Attempt attempt, Sleep (Some (2 ^ attempt * 1000))]"
          have "\<exists>evs n. snd (snd (withRetry_from fn (attempt + 1) (w', ?log'))) = ?log' @ evs
            \<and> attempts_of evs = [Suc attempt..<n] \<and> n \<le> Suc MAX_RETRIES"
            using "1.hyps"(2)[OF le fw[symmetric] Inl nrl True] by auto
          then have "\<exists>evs n. snd (snd (withRetry_from fn (attempt + 1) (w', ?log'))) = log @ evs
            \<and> attempts_of evs = [attempt..<n] \<and> n \<le> Suc MAX_RETRIES \<and> attempt < n"
            by (rule extend_attempts) (use le in auto)
          with le fw Inl nrl True show ?thesis by (simp add: withRetry_from_backoff)
        next
          case False
          with le fw Inl nrl show ?thesis
            apply (simp add: withRetry_from_throw del: upt_Suc)
            apply (rule exI[of _ "Suc attempt"]) by auto
        qed
      qed
    qed
  qed
qed

lemma withRetry_attempts:
  "\<exists>evs. snd (snd (withRetry fn (w, log))) = log @ evs \<and> attempts_of evs \<in> {[1], [1, 2], [1, 2, 3]}"
proof -
  obtain evs n where e: "snd (snd (withRetry_from fn 1 (w, log))) = log @ evs"
    and a: "attempts_of evs = [1..<n]" and n: "n \<le> Suc MAX_RETRIES" and n1: "1 < n"
    using withRetry_from_log[of fn 1 w log] by (auto simp: MAX_RETRIES_def)
  have "n \<in> {2, 3, 4}" using n n1 by (auto simp: MAX_RETRIES_def)
  then have "attempts_of evs \<in> {[1], [1, 2], [1, 2, 3]}"
    using a by (auto simp: upt_rec)
  with e show ?thesis by (auto simp: withRetry_def)
qed

lemma isRetryable_iff:
  "isRetryable error \<longleftrightarrow>
     err_code error \<in> {Some ''ECONNREFUSED'', Some ''ECONNRESET'', Some ''ETIMEDOUT'', Some ''rate_limited''}
     \<or> (\<exists>s. err_status error = Some s \<and> 500 \<le> s)"
  by (auto simp: isRetryable_def split: option.splits)

lemmas error_defs = rate_limited_error_def server_error_def validation_error_def

text \<open>A rate-limit error that carries \<open>retry-after: 2\<close> as a property of
  a plain object, on the first attempt, then success.\<close>

lemma withRetry_rate_limited_then_success: "withRetry scripted ([Inl (rate_limited_error (Some ''2'')), Inr (Str ''page'')], []) =
   (Inr (Some (Str ''page'')), [], [Attempt 1, Sleep (Some 2000), Attempt 2, Sleep (Some 350)])"
  by (simp add: withRetry_def withRetry_from.simps scripted_def error_defs 
        MAX_RETRIES_def retry_after_ms_def digit_val_def API_INTERVAL_MS_def)

text \<open>
  The policy of the wrapper. The first conjunct bounds the attempts of a whole call: at
  most three. The others describe the round of the loop with the number \<open>attempt\<close> in
  which the call \<open>fn\<close> throws \<open>error\<close>: after a rate-limit error the wrapper sleeps and
  goes to the next round, for 60 seconds when the error has no property \<open>retry-after\<close>
  in its headers and for the seconds of that property when it has one; after a transient
  failure (connection refused, connection reset, timeout, or a status of 500 and above)
  before the last round it sleeps \<open>2 ^ attempt\<close> seconds and goes to the next round; any
  other error is thrown at once, without a further attempt.
\<close>

lemma withRetry_policy:
  fixes fn :: "'w \<Rightarrow> (js_error + 'a) \<times> 'w"
  shows
  "(\<exists>evs. snd (snd (withRetry fn (w0, log0))) = log0 @ evs \<and> attempts_of evs \<in> {[1], [1, 2], [1, 2, 3]})
   \<and> (attempt \<le> 3 \<and> fn w = (Inl error, w') \<and> err_code error = Some ''rate_limited'' \<longrightarrow>
        withRetry_from fn attempt (w, log) =
          withRetry_from fn (attempt + 1) (w', log @ [Attempt attempt, Sleep (retry_after_ms error)])
        \<and> (err_retry_after error = None \<longrightarrow> retry_after_ms error = Some (60 * 1000))
        \<and> (\<forall>h n. err_retry_after error = Some h \<and> h \<noteq> [] \<and> parse_nat 0 h = Some n \<longrightarrow>
               retry_after_ms error = Some (n * 1000)))
   \<and> (attempt < 3 \<and> fn w = (Inl error, w') \<and> err_code error \<noteq> Some ''rate_limited''
        \<and> (err_code error \<in> {Some ''ECONNREFUSED'', Some ''ECONNRESET'', Some ''ETIMEDOUT''}
             \<or> (\<exists>s. err_status error = Some s \<and> 500 \<le> s)) \<longrightarrow>
        withRetry_from fn attempt (w, log) =
          withRetry_from fn (attempt + 1) (w', log @ [Attempt attempt, Sleep (Some (2 ^ attempt * 1000))]))
   \<and> (attempt \<le> 3 \<and> fn w = (Inl error, w')
        \<and> err_code error \<notin> {Some ''rate_limited'', Some ''ECONNREFUSED'', Some ''ECONNRESET'', Some ''ETIMEDOUT''}
        \<and> (\<forall>s. err_status error = Some s \<longrightarrow> s < 500) \<longrightarrow>
        withRetry_from fn attempt (w, log) = (Inl error, w', log @ [Attempt attempt]))"
proof (intro conjI impI)
  show "\<exists>evs. snd (snd (withRetry fn (w0, log0))) = log0 @ evs \<and> attempts_of evs \<in> {[1], [1, 2], [1, 2, 3]}"
    by (rule withRetry_attempts)
next
  assume "attempt \<le> 3 \<and> fn w = (Inl error, w') \<and> err_code error = Some ''rate_limited''"
  then show "withRetry_from fn attempt (w, log) =
          withRetry_from fn (attempt + 1) (w', log @ [Attempt attempt, Sleep (retry_after_ms error)])"
    by (simp add: withRetry_from_rate_limited MAX_RETRIES_def)
next
  assume "err_retry_after error = None"
  then show "retry_after_ms error = Some (60 * 1000)" by (simp add: retry_after_ms_def)
next
  show "\<forall>h n. err_retry_after error = Some h \<and> h \<noteq> [] \<and> parse_nat 0 h = Some n \<longrightarrow>
               retry_after_ms error = Some (n * 1000)"
    by (simp add: retry_after_ms_def)
next
  assume a: "attempt < 3 \<and> fn w = (Inl error, w') \<and> err_code error \<noteq> Some ''rate_limited''
        \<and> (err_code error \<in> {Some ''ECONNREFUSED'', Some ''ECONNRESET'', Some ''ETIMEDOUT''}
             \<or> (\<exists>s. err_status error = Some s \<and> 500 \<le> s))"
  then have "isRetryable error" unfolding isRetryable_iff by blast
  with a show "withRetry_from fn attempt (w, log) =
          withRetry_from fn (attempt + 1) (w', log @ [Attempt attempt, Sleep (Some (2 ^ attempt * 1000))])"
    by (simp add: withRetry_from_backoff MAX_RETRIES_def)
next
  assume a: "attempt \<le> 3 \<and> fn w = (Inl error, w')
        \<and> err_code error \<notin> {Some ''rate_limited'', Some ''ECONNREFUSED'', Some ''ECONNRESET'', Some ''ETIMEDOUT''}
        \<and> (\<forall>s. err_status error = Some s \<longrightarrow> s < 500)"
  then have "\<not> isRetryable error" unfolding isRetryable_iff by auto
  with a show "withRetry_from fn attempt (w, log) = (Inl error, w', log @ [Attempt attempt])"
    by (simp add: withRetry_from_throw MAX_RETRIES_def)
qed

lemma withRetry_policy_examples:
  "(1::nat) \<le> 3 \<and> scripted [Inl (rate_limited_error (Some ''2'')), Inr (Str ''page'')]
      = (Inl (rate_limited_error (Some ''2'')), [Inr (Str ''page'')])
   \<and> err_code (rate_limited_error (Some ''2'')) = Some ''rate_limited''
   \<and> err_retry_after (rate_limited_error (Some ''2'')) = Some ''2'' \<and> parse_nat 0 ''2'' = Some 2
   \<and> withRetry_from scripted 1 ([Inl (rate_limited_error (Some ''2'')), Inr (Str ''page'')], []) =
       withRetry_from scripted (1 + 1) ([Inr (Str ''page'')], [Attempt 1, Sleep (Some 2000)])
   \<and> (2::nat) < 3 \<and> scripted [Inl server_error] = (Inl server_error, [])
   \<and> err_code server_error \<noteq> Some ''rate_limited'' \<and> err_status server_error = Some 503
   \<and> withRetry_from scripted 2 ([Inl server_error], []) =
       withRetry_from scripted (2 + 1) ([], [Attempt 2, Sleep (Some 4000)])
   \<and> scripted [Inl validation_error] = (Inl validation_error, [])
   \<and> err_code validation_error = Some ''validation_error'' \<and> err_status validation_error = Some 400
   \<and> withRetry_from scripted 1 ([Inl validation_error], []) = (Inl validation_error, [], [Attempt 1])"
  using withRetry_policy [of scripted "[]" "[]" 1 "[Inl (rate_limited_error (Some ''2'')), Inr (Str ''page'')]"
          "rate_limited_error (Some ''2'')" "[Inr (Str ''page'')]" "[]"]
        withRetry_policy [of scripted "[]" "[]" 2 "[Inl server_error]" server_error "[]" "[]"]
        withRetry_policy [of scripted "[]" "[]" 1 "[Inl validation_error]" validation_error "[]" "[]"]
  by (simp add: scripted_def error_defs retry_after_ms_def digit_val_def)

text \<open>
  Claim C3: the retry wrapper makes at most three attempts; after a rate-limit error it
  sleeps the advised \<open>retry-after\<close> duration (60 seconds when the header is absent)
  before the next attempt; after a transient failure (connection refused, connection
  reset, timeout, or a status of 500 and above) it sleeps \<open>2 ^ attempt\<close> seconds before
  the next attempt; any other error is thrown at once, without a further attempt.

  The code does not sleep the advised duration. It reads the advice with
  \<open>error.headers?.['retry-after']\<close>, a property access, while the error of the store
  client carries the headers of the answer as a \<open>Headers\<close> object, which has no such
  property (its entries are read with \<open>get\<close>). So the default applies to every
  rate-limited answer of the store: whatever wait the store advises, the wrapper sleeps
  60 seconds. Below, the scenario of the specification: the first attempt is rate-limited
  with an advised wait of \<open>seconds\<close> (two in the specification), the second succeeds.
\<close>

theorem withRetry_ignores_advised_wait:
  "err_retry_after (client_rate_limited_error seconds) = None
   \<and> withRetry scripted ([Inl (client_rate_limited_error seconds), Inr result], []) =
       (Inr (Some result), [], [Attempt 1, Sleep (Some 60000), Attempt 2, Sleep (Some 350)])"
  by (simp add: withRetry_def withRetry_from.simps scripted_def client_rate_limited_error_def
        MAX_RETRIES_def retry_after_ms_def API_INTERVAL_MS_def)

text \<open>
  Claim C4: when the three attempts are exhausted the error propagates to the caller for
  every class of error; a call whose every attempt is rate-limited ends by raising an
  error.

  The code does not do this for the rate-limit class. That branch sleeps and continues
  the loop without looking at the attempt number, as the branch of the transient errors
  does, so after the third rate-limited attempt the loop ends and the wrapper returns
  \<open>undefined\<close> (\<open>Inr None\<close>) instead of throwing.
\<close>

theorem withRetry_rate_limit_exhaustion:
  "withRetry always_rate_limited ((), []) =
     (Inr None, (),
      [Attempt 1, Sleep (Some 60000), Attempt 2, Sleep (Some 60000), Attempt 3, Sleep (Some 60000)])"
  by (simp add: withRetry_def withRetry_from.simps always_rate_limited_def rate_limited_error_def
        MAX_RETRIES_def retry_after_ms_def)

text \<open>What follows from it in the cleanup: an archive call that is rate-limited three
  times returns \<open>undefined\<close>, and the page is counted as archived.\<close>

lemma archivePage_rate_limited:
  "archivePage rate_limited_sdk pageId ((), []) =
     (Inr Undefined, (),
      [Attempt 1, Sleep (Some 60000), Attempt 2, Sleep (Some 60000), Attempt 3, Sleep (Some 60000)])"
  by (simp add: archivePage_def rate_limited_sdk_def withRetry_def withRetry_from.simps
        rate_limited_error_def MAX_RETRIES_def retry_after_ms_def)

lemma archive_found_rate_limited:
  "archive_found (notion_client rate_limited_sdk) [public_copy ''copy-a'']
       \<lparr> store = ((), []), calls = [], errorCount = 0, archivedCount = 0 \<rparr> =
     Some (None,
           \<lparr> store = ((), [Attempt 1, Sleep (Some 60000), Attempt 2, Sleep (Some 60000),
                            Attempt 3, Sleep (Some 60000)]),
              calls = [ArchiveCall (Str ''copy-a'')], errorCount = 0, archivedCount = 1 \<rparr>)"
  by (simp add: notion_client_def archivePage_rate_limited public_copy_def)

section \<open>Properties of the content sanitizer\<close>

lemma fold_delete_filter:
  "fold AList.delete ks ps = filter (\<lambda>p. fst p \<notin> set ks) ps"
proof (induction ks arbitrary: ps)
  case Nil
  then show ?case by simp
next
  case (Cons k ks)
  have "AList.delete k ps = filter (\<lambda>p. fst p \<noteq> k) ps"
    by (auto simp: AList.delete_eq case_prod_unfold intro: filter_cong)
  with Cons show ?case by (auto intro: filter_cong)
qed

lemma collect_Inr: "collect xs = Inr ys \<Longrightarrow> xs = map Inr ys"
  by (induction xs arbitrary: ys) (auto split: sum.splits)

lemma sanitizeBlock_typed:
  assumes "getProp block ''type'' = Str t"
  shows "sanitizeBlock block =
     Inr (AList.update t
           (Obj (if truthy (getProp block t)
                 then filter (\<lambda>p. fst p \<notin> set read_only_keys) (spread (getProp block t)) else []))
           [(''type'', Str t)])"
  using assms by (simp add: sanitizeBlock_def fold_delete_filter Let_def)

lemma sanitizeBlock_type_kept:
  assumes "sanitizeBlock b = Inr c" and "getProp c ''type'' = Str k"
  shows "getProp b ''type'' = Str k"
  using assms
  by (auto simp: sanitizeBlock_def Let_def getProp_def split: sum.splits if_splits)

lemmas block_defs = paragraph_block_def paragraph_payload_def divider_block_def child_page_block_def

lemma read_only_keys_set:
  "set read_only_keys =
     {''id'', ''created_time'', ''last_edited_time'', ''created_by'', ''last_edited_by'',
      ''has_children'', ''parent'', ''archived''}"
  by (simp add: read_only_keys_def)

text \<open>
  Claim C7: the sanitizer keeps the kind tag of a block and its payload, without the
  server-assigned attributes (identifier, creation and modification time, authorship,
  parent, has-children, archived flag); a block without payload gets an empty payload
  under its kind; blocks of the kinds \<open>child_database\<close> and \<open>child_page\<close> are
  filtered out before sanitization.

  A content block has a string \<open>t\<close> as its kind tag under the key \<open>type\<close> and its
  payload under the key \<open>t\<close>, so \<open>t\<close> is not the key \<open>type\<close> itself. The result has
  the two keys \<open>type\<close> and \<open>t\<close> only, which drops every attribute of the block, and
  the payload keeps, in their order, exactly its entries whose key is none of \<open>id\<close>,
  \<open>created_time\<close>, \<open>last_edited_time\<close>, \<open>created_by\<close>, \<open>last_edited_by\<close>,
  \<open>has_children\<close>, \<open>parent\<close> and \<open>archived\<close>.
\<close>

theorem sanitizeBlock_spec:
  assumes "getProp block ''type'' = Str t" and "t \<noteq> ''type''"
  shows
   "(map_of block t = Some (Obj payload) \<longrightarrow>
       sanitizeBlock block =
         Inr [(''type'', Str t),
              (t, Obj (filter
                (\<lambda>p. fst p \<notin>
                  {''id'', ''created_time'', ''last_edited_time'', ''created_by'', ''last_edited_by'',
                   ''has_children'', ''parent'', ''archived''}) payload))])
    \<and> (map_of block t = None \<or> map_of block t = Some Null \<longrightarrow>
         sanitizeBlock block = Inr [(''type'', Str t), (t, Obj [])])
    \<and> (sanitize_children blocks = Inr cs \<longrightarrow>
         map sanitizeBlock
           (filter (\<lambda>b. getProp b ''type'' \<noteq> Str ''child_database'' \<and> getProp b ''type'' \<noteq> Str ''child_page'') blocks)
           = map Inr cs
         \<and> (\<forall>c \<in> set cs. getProp c ''type'' \<noteq> Str ''child_database'' \<and> getProp c ''type'' \<noteq> Str ''child_page''))"
proof (intro conjI impI)
  assume "map_of block t = Some (Obj payload)"
  then have "getProp block t = Obj payload" by (simp add: getProp_def)
  then show "sanitizeBlock block =
         Inr [(''type'', Str t),
              (t, Obj (filter
                (\<lambda>p. fst p \<notin>
                  {''id'', ''created_time'', ''last_edited_time'', ''created_by'', ''last_edited_by'',
                   ''has_children'', ''parent'', ''archived''}) payload))]"
    using assms unfolding read_only_keys_set[symmetric] by (simp add: sanitizeBlock_typed)
next
  assume "map_of block t = None \<or> map_of block t = Some Null"
  then have "\<not> truthy (getProp block t) \<or> spread (getProp block t) = []"
    by (auto simp: getProp_def)
  then show "sanitizeBlock block = Inr [(''type'', Str t), (t, Obj [])]"
    using assms by (auto simp: sanitizeBlock_typed)
next
  assume cs: "sanitize_children blocks = Inr cs"
  then show m: "map sanitizeBlock
           (filter (\<lambda>b. getProp b ''type'' \<noteq> Str ''child_database'' \<and> getProp b ''type'' \<noteq> Str ''child_page'') blocks)
           = map Inr cs"
    using collect_Inr[of "map sanitizeBlock (filter keep_block blocks)" cs]
    by (simp add: sanitize_children_def keep_block_def[abs_def])
  show "\<forall>c \<in> set cs. getProp c ''type'' \<noteq> Str ''child_database'' \<and> getProp c ''type'' \<noteq> Str ''child_page''"
  proof
    fix c assume "c \<in> set cs"
    then have "Inr c \<in> set (map sanitizeBlock
           (filter (\<lambda>b. getProp b ''type'' \<noteq> Str ''child_database'' \<and> getProp b ''type'' \<noteq> Str ''child_page'') blocks))"
      unfolding m by simp
    then obtain b where b: "sanitizeBlock b = Inr c" "getProp b ''type'' \<noteq> Str ''child_database''"
        "getProp b ''type'' \<noteq> Str ''child_page''" by auto
    then show "getProp c ''type'' \<noteq> Str ''child_database'' \<and> getProp c ''type'' \<noteq> Str ''child_page''"
      using sanitizeBlock_type_kept[OF b(1)] by blast
  qed
qed

theorem sanitizeBlock_spec_witness:
  "getProp paragraph_block ''type'' = Str ''paragraph'' \<and> ''paragraph'' \<noteq> ''type''
   \<and> map_of paragraph_block ''paragraph'' = Some (Obj paragraph_payload)
   \<and> sanitizeBlock paragraph_block =
        Inr [(''type'', Str ''paragraph''),
             (''paragraph'', Obj [(''rich_text'', Arr [Obj [(''plain_text'', Str ''hello'')]]),
                                   (''color'', Str ''default'')])]
   \<and> getProp divider_block ''type'' = Str ''divider'' \<and> ''divider'' \<noteq> ''type''
   \<and> map_of divider_block ''divider'' = None
   \<and> sanitizeBlock divider_block = Inr [(''type'', Str ''divider''), (''divider'', Obj [])]
   \<and> sanitize_children [paragraph_block, child_page_block, divider_block] =
        Inr [[(''type'', Str ''paragraph''),
              (''paragraph'', Obj [(''rich_text'', Arr [Obj [(''plain_text'', Str ''hello'')]]),
                                    (''color'', Str ''default'')])],
             [(''type'', Str ''divider''), (''divider'', Obj [])]]
   \<and> list_all (\<lambda>c. getProp c ''type'' \<noteq> Str ''child_database'' \<and> getProp c ''type'' \<noteq> Str ''child_page'')
        [[(''type'', Str ''paragraph''),
          (''paragraph'', Obj [(''rich_text'', Arr [Obj [(''plain_text'', Str ''hello'')]]),
                                (''color'', Str ''default'')])],
         [(''type'', Str ''divider''), (''divider'', Obj [])]]"
proof -
  let ?p = "[(''type'', Str ''paragraph''),
              (''paragraph'', Obj [(''rich_text'', Arr [Obj [(''plain_text'', Str ''hello'')]]),
                                    (''color'', Str ''default'')])]"
  let ?d = "[(''type'', Str ''divider''), (''divider'', Obj [])]"
  have p1: "getProp paragraph_block ''type'' = Str ''paragraph''"
    by (simp add: block_defs getProp_def)
  have p2: "''paragraph'' \<noteq> ''type''" by simp
  have p3: "map_of paragraph_block ''paragraph'' = Some (Obj paragraph_payload)"
    by (simp add: paragraph_block_def)
  have d1: "getProp divider_block ''type'' = Str ''divider''"
    by (simp add: block_defs getProp_def)
  have d2: "''divider'' \<noteq> ''type''" by simp
  have d3: "map_of divider_block ''divider'' = None"
    by (simp add: divider_block_def)
  have c1: "getProp child_page_block ''type'' = Str ''child_page''"
    by (simp add: block_defs getProp_def)
  have f: "filter
      (\<lambda>p. fst p \<notin>
        {''id'', ''created_time'', ''last_edited_time'', ''created_by'', ''last_edited_by'',
         ''has_children'', ''parent'', ''archived''}) paragraph_payload =
      [(''rich_text'', Arr [Obj [(''plain_text'', Str ''hello'')]]), (''color'', Str ''default'')]"
    by (simp add: paragraph_payload_def)
  have sp: "sanitizeBlock paragraph_block = Inr ?p"
    using sanitizeBlock_spec [OF p1 p2, of paragraph_payload "[]" "[]"] p3 f by simp
  have sd: "sanitizeBlock divider_block = Inr ?d"
    using sanitizeBlock_spec [OF d1 d2, of "[]" "[]" "[]"] d3 by simp
  have ch: "sanitize_children [paragraph_block, child_page_block, divider_block] = Inr [?p, ?d]"
    by (simp add: sanitize_children_def keep_block_def p1 d1 c1 sp sd)
  have "\<forall>c \<in> set [?p, ?d]. getProp c ''type'' \<noteq> Str ''child_database'' \<and> getProp c ''type'' \<noteq> Str ''child_page''"
    using sanitizeBlock_spec [OF p1 p2, of paragraph_payload "[paragraph_block, child_page_block, divider_block]" "[?p, ?d]"] ch
    by blast
  then have "list_all (\<lambda>c. getProp c ''type'' \<noteq> Str ''child_database'' \<and> getProp c ''type'' \<noteq> Str ''child_page'') [?p, ?d]"
    unfolding list_all_iff .
  with p1 p2 p3 d1 d2 d3 sp sd ch show ?thesis by blast
qed

text \<open>
  Claim C10: the sanitizer is idempotent: applied to an already sanitized block it
  returns the same block. The block carries a string \<open>t\<close> as its kind tag, which is
  not the key \<open>type\<close> itself; its payload is arbitrary.
\<close>

theorem sanitizeBlock_idempotent:
  assumes "getProp block ''type'' = Str t" and "t \<noteq> ''type''"
  shows "\<exists>b. sanitizeBlock block = Inr b \<and> sanitizeBlock b = Inr b"
proof -
  define s where "s = (if truthy (getProp block t)
                 then filter (\<lambda>p. fst p \<notin> set read_only_keys) (spread (getProp block t)) else [])"
  have 1: "sanitizeBlock block = Inr [(''type'', Str t), (t, Obj s)]"
    using assms by (simp add: sanitizeBlock_typed s_def)
  have "getProp [(''type'', Str t), (t, Obj s)] ''type'' = Str t" by (simp add: getProp_def)
  moreover have "getProp [(''type'', Str t), (t, Obj s)] t = Obj s" using assms(2) by (simp add: getProp_def)
  moreover have "filter (\<lambda>p. fst p \<notin> set read_only_keys) s = s" by (simp add: s_def)
  ultimately have "sanitizeBlock [(''type'', Str t), (t, Obj s)] = Inr [(''type'', Str t), (t, Obj s)]"
    using assms(2) by (simp add: sanitizeBlock_typed)
  with 1 show ?thesis by simp
qed

theorem sanitizeBlock_idempotent_witness:
  "getProp paragraph_block ''type'' = Str ''paragraph'' \<and> ''paragraph'' \<noteq> ''type''
   \<and> (\<exists>b. sanitizeBlock paragraph_block = Inr b \<and> sanitizeBlock b = Inr b)"
  using sanitizeBlock_idempotent [of paragraph_block "''paragraph''"]
  by (simp add: block_defs getProp_def)

section \<open>Properties of the property mapping\<close>

lemma map_of_assign:
  "map_of (assign m k' v) k = (if k = k' \<and> k' \<noteq> ''__proto__'' then Some v else map_of m k)"
  by (simp add: assign_def AList.update_conv')

lemma copy_loop_built:
  "copy_loop src fs acc = Inr mapped \<Longrightarrow> k \<in> set fs \<Longrightarrow> k \<noteq> anken_shousai \<Longrightarrow> k \<noteq> anken_mei \<Longrightarrow>
   truthy (getProp src k) \<Longrightarrow> \<exists>v. buildPropertyValue (getProp src k) = Inr v"
  by (induction src fs acc rule: copy_loop.induct) (auto simp: Let_def split: if_splits sum.splits)

lemma copy_loop_lookup:
  "copy_loop src fs acc = Inr mapped \<Longrightarrow>
   map_of mapped k =
     (if k \<in> set fs \<and> k \<noteq> anken_shousai \<and> k \<noteq> anken_mei \<and> k \<noteq> ''__proto__'' \<and> truthy (getProp src k)
      then (case buildPropertyValue (getProp src k) of Inr v \<Rightarrow> Some v | Inl e \<Rightarrow> None)
      else map_of acc k)"
proof (induction src fs acc rule: copy_loop.induct)
  case (1 sourceProps mapped)
  then show ?case by simp
next
  case (2 sourceProps field fs acc)
  then show ?case
    by (auto simp: Let_def map_of_assign split: if_splits sum.splits)
qed

lemma anken_names_distinct:
  "anken_mei \<noteq> master_anken_id" "anken_mei \<noteq> ''__proto__''" "master_anken_id \<noteq> ''__proto__''"
  "anken_mei \<noteq> anken_shousai" "master_anken_id \<noteq> anken_shousai" "anken_shousai \<noteq> ''__proto__''"
  by (simp_all add: anken_mei_def master_anken_id_def anken_shousai_def)

lemma map_of_add_title:
  "map_of (add_title src m) k =
     (if k = anken_mei \<and> truthy (getProp src anken_mei)
      then Some (Obj [(''title'', js_or (field_of (getProp src anken_mei) ''title'') (Arr []))])
      else map_of m k)"
  by (simp add: add_title_def Let_def map_of_assign anken_names_distinct)

lemma map_of_add_master_id:
  "map_of (add_master_id src m) k =
     (if k = master_anken_id \<and> truthy (getProp src anken_id) \<and> truthy (field_of (getProp src anken_id) ''unique_id'')
      then Some (Obj [(''number'', field_of (field_of (getProp src anken_id) ''unique_id'') ''number'')])
      else map_of m k)"
  by (simp add: add_master_id_def Let_def map_of_assign anken_names_distinct)

lemma mapProperties_lookup:
  assumes "mapProperties page copyFields = Inr mapped"
  shows "map_of mapped k =
    (if k = master_anken_id \<and> truthy (getProp (properties page) anken_id)
          \<and> truthy (field_of (getProp (properties page) anken_id) ''unique_id'')
     then Some (Obj [(''number'', field_of (field_of (getProp (properties page) anken_id) ''unique_id'') ''number'')])
     else if k = anken_mei \<and> truthy (getProp (properties page) anken_mei)
     then Some (Obj [(''title'', js_or (field_of (getProp (properties page) anken_mei) ''title'') (Arr []))])
     else if k \<in> set copyFields \<and> k \<noteq> anken_shousai \<and> k \<noteq> anken_mei \<and> k \<noteq> ''__proto__''
             \<and> truthy (getProp (properties page) k)
     then (case buildPropertyValue (getProp (properties page) k) of Inr v \<Rightarrow> Some v | Inl e \<Rightarrow> None)
     else None)"
proof -
  from assms obtain m0 where m0: "copy_loop (properties page) copyFields [] = Inr m0"
    and mapped: "mapped = add_master_id (properties page) (add_title (properties page) m0)"
    by (auto simp: mapProperties_def Let_def split: sum.splits)
  show ?thesis
    unfolding mapped map_of_add_master_id map_of_add_title copy_loop_lookup[OF m0]
    by simp
qed


lemma collect_map_Inr: "collect (map (\<lambda>x. Inr (f x)) xs) = Inr (map f xs)"
  by (induction xs) auto

lemma map_names_Arr:
  "map_names (Arr items) = Inr ys \<Longrightarrow> ys = Arr (map (\<lambda>i. Obj [(''name'', field_of i ''name'')]) items)"
proof -
  assume a: "map_names (Arr items) = Inr ys"
  then obtain zs where c: "collect (map name_of_item items) = Inr zs" and ys: "ys = Arr zs"
    by (auto simp: map_names_def js_or_def split: sum.splits)
  from collect_Inr[OF c] have "map name_of_item items = map Inr zs" .
  then have "zs = map (\<lambda>i. Obj [(''name'', field_of i ''name'')]) items"
  proof (induction items arbitrary: zs)
    case Nil
    then show ?case by simp
  next
    case (Cons i items)
    then show ?case
      by (cases zs) (auto simp: name_of_item_def member_def split: if_splits)
  qed
  with ys show ?thesis by simp
qed

lemma map_names_falsy: "\<not> truthy v \<Longrightarrow> map_names v = Inr (Arr [])"
  by (simp add: map_names_def js_or_def)

lemma buildPropertyValue_Obj:
  "buildPropertyValue (Obj ps) =
    (let t = getProp ps ''type'' in
     if t = Str ''rich_text'' then Inr (Obj [(''rich_text'', js_or (getProp ps ''rich_text'') (Arr []))])
     else if t = Str ''number'' then Inr (Obj [(''number'', getProp ps ''number'')])
     else if t = Str ''select'' then
       Inr (Obj [(''select'', if truthy (getProp ps ''select'')
                            then Obj [(''name'', field_of (getProp ps ''select'') ''name'')] else Null)])
     else if t = Str ''multi_select'' then
       (case map_names (getProp ps ''multi_select'') of Inl e \<Rightarrow> Inl e
        | Inr ys \<Rightarrow> Inr (Obj [(''multi_select'', ys)]))
     else if t = Str ''date'' then Inr (Obj [(''date'', getProp ps ''date'')])
     else if t = Str ''url'' then Inr (Obj [(''url'', getProp ps ''url'')])
     else if t = Str ''checkbox'' then Inr (Obj [(''checkbox'', getProp ps ''checkbox'')])
     else if t = Str ''email'' then Inr (Obj [(''email'', getProp ps ''email'')])
     else if t = Str ''phone_number'' then Inr (Obj [(''phone_number'', getProp ps ''phone_number'')])
     else Inr (Obj [(''rich_text'', js_or (getProp ps ''rich_text'') (Arr []))]))"
  by (simp add: buildPropertyValue_def member_def Let_def)

lemmas name_defs = anken_mei_def anken_id_def anken_type_def level_prop_def anken_shousai_def
  master_anken_id_def douga_seisaku_def design_seisaku_def level1_def level2_def level3_def

text \<open>The loop skips the two reserved names: the listed long-form field
  \<open>anken_shousai\<close> is omitted although the record has it, and the title and the
  back-reference are written although they are not listed.\<close>

lemma mapProperties_reserved_field_omitted:
  "map_of (properties sample_page) anken_shousai =
     Some (Obj [(''type'', Str ''rich_text''), (''rich_text'', Arr [Obj [(''plain_text'', Str ''details'')]])])
   \<and> mapProperties sample_page [anken_shousai] =
       Inr [(anken_mei, Obj [(''title'', Arr [Obj [(''plain_text'', Str ''Test job'')]])]),
            (master_anken_id, Obj [(''number'', Num 1001)])]"
  by code_simp

text \<open>
  The shapes the mapper emits. For every listed field other than the two reserved names,
  the name of the back-reference and the key \<open>__proto__\<close>, which the source record has
  as a property object of type \<open>t\<close>, the mapper emits the documented shape of that type
  (an explicit null for a select without selection, an empty list for a multi-choice
  without selections, a text span list for an unrecognized type). A field other than the
  title and the back-reference that is not listed is omitted, and so is a listed field
  that the record lacks, unless it bears the name of a member of \<open>Object.prototype\<close>.
\<close>

lemma mapProperties_fields:
  assumes "mapProperties page copyFields = Inr mapped"
  shows
   "(field \<in> set copyFields \<and> field \<notin> {anken_shousai, anken_mei, master_anken_id, ''__proto__''}
       \<and> map_of (properties page) field = Some (Obj ps) \<and> getProp ps ''type'' = t \<longrightarrow>
         (t = Str ''rich_text'' \<longrightarrow>
            map_of mapped field = Some (Obj [(''rich_text'', js_or (getProp ps ''rich_text'') (Arr []))]))
       \<and> (t = Str ''number'' \<longrightarrow> map_of mapped field = Some (Obj [(''number'', getProp ps ''number'')]))
       \<and> (t = Str ''date'' \<longrightarrow> map_of mapped field = Some (Obj [(''date'', getProp ps ''date'')]))
       \<and> (t = Str ''url'' \<longrightarrow> map_of mapped field = Some (Obj [(''url'', getProp ps ''url'')]))
       \<and> (t = Str ''checkbox'' \<longrightarrow> map_of mapped field = Some (Obj [(''checkbox'', getProp ps ''checkbox'')]))
       \<and> (t = Str ''email'' \<longrightarrow> map_of mapped field = Some (Obj [(''email'', getProp ps ''email'')]))
       \<and> (t = Str ''phone_number'' \<longrightarrow>
            map_of mapped field = Some (Obj [(''phone_number'', getProp ps ''phone_number'')]))
       \<and> (t = Str ''select'' \<and> truthy (getProp ps ''select'') \<longrightarrow>
            map_of mapped field =
              Some (Obj [(''select'', Obj [(''name'', field_of (getProp ps ''select'') ''name'')])]))
       \<and> (t = Str ''select'' \<and> \<not> truthy (getProp ps ''select'') \<longrightarrow>
            map_of mapped field = Some (Obj [(''select'', Null)]))
       \<and> (t = Str ''multi_select'' \<and> getProp ps ''multi_select'' = Arr items \<longrightarrow>
            map_of mapped field =
              Some (Obj [(''multi_select'', Arr (map (\<lambda>i. Obj [(''name'', field_of i ''name'')]) items))]))
       \<and> (t = Str ''multi_select'' \<and> \<not> truthy (getProp ps ''multi_select'') \<longrightarrow>
            map_of mapped field = Some (Obj [(''multi_select'', Arr [])]))
       \<and> (t \<notin> {Str ''rich_text'', Str ''number'', Str ''select'', Str ''multi_select'', Str ''date'',
                 Str ''url'', Str ''checkbox'', Str ''email'', Str ''phone_number''} \<longrightarrow>
            map_of mapped field = Some (Obj [(''rich_text'', js_or (getProp ps ''rich_text'') (Arr []))])))
    \<and> (field \<notin> {anken_mei, master_anken_id}
        \<and> (field \<notin> set copyFields
            \<or> (map_of (properties page) field = None \<and> field \<notin> set object_prototype_keys)) \<longrightarrow>
          map_of mapped field = None)"
proof (intro conjI impI)
  assume a: "field \<notin> {anken_mei, master_anken_id}
        \<and> (field \<notin> set copyFields
            \<or> (map_of (properties page) field = None \<and> field \<notin> set object_prototype_keys))"
  then have "field \<notin> set copyFields \<or> \<not> truthy (getProp (properties page) field)"
    by (auto simp: getProp_def)
  with a show "map_of mapped field = None"
    unfolding mapProperties_lookup[OF assms] by auto
next
  assume a: "field \<in> set copyFields \<and> field \<notin> {anken_shousai, anken_mei, master_anken_id, ''__proto__''}
       \<and> map_of (properties page) field = Some (Obj ps) \<and> getProp ps ''type'' = t"
  then have g: "getProp (properties page) field = Obj ps" by (simp add: getProp_def)
  from a have "truthy (getProp (properties page) field)" by (simp add: g)
  with a obtain v where v: "buildPropertyValue (Obj ps) = Inr v"
    using copy_loop_built[of "properties page" copyFields "[]" _ field] assms g
    by (auto simp: mapProperties_def Let_def split: sum.splits)
  have m: "map_of mapped field = Some v"
    unfolding mapProperties_lookup[OF assms] using a g v by auto
  note b = v[unfolded buildPropertyValue_Obj Let_def]
  show "map_of mapped field = Some (Obj [(''rich_text'', js_or (getProp ps ''rich_text'') (Arr []))])"
    if "t = Str ''rich_text''"
    using that a b m by auto
  show "map_of mapped field = Some (Obj [(''number'', getProp ps ''number'')])" if "t = Str ''number''"
    using that a b m by auto
  show "map_of mapped field = Some (Obj [(''date'', getProp ps ''date'')])" if "t = Str ''date''"
    using that a b m by auto
  show "map_of mapped field = Some (Obj [(''url'', getProp ps ''url'')])" if "t = Str ''url''"
    using that a b m by auto
  show "map_of mapped field = Some (Obj [(''checkbox'', getProp ps ''checkbox'')])" if "t = Str ''checkbox''"
    using that a b m by auto
  show "map_of mapped field = Some (Obj [(''email'', getProp ps ''email'')])" if "t = Str ''email''"
    using that a b m by auto
  show "map_of mapped field = Some (Obj [(''phone_number'', getProp ps ''phone_number'')])"
    if "t = Str ''phone_number''"
    using that a b m by auto
  show "map_of mapped field =
          Some (Obj [(''select'', Obj [(''name'', field_of (getProp ps ''select'') ''name'')])])"
    if "t = Str ''select'' \<and> truthy (getProp ps ''select'')"
    using that a b m by auto
  show "map_of mapped field = Some (Obj [(''select'', Null)])"
    if "t = Str ''select'' \<and> \<not> truthy (getProp ps ''select'')"
    using that a b m by auto
  show "map_of mapped field =
          Some (Obj [(''multi_select'', Arr (map (\<lambda>i. Obj [(''name'', field_of i ''name'')]) items))])"
    if "t = Str ''multi_select'' \<and> getProp ps ''multi_select'' = Arr items"
    using that a b m by (auto split: sum.splits dest: map_names_Arr)
  show "map_of mapped field = Some (Obj [(''multi_select'', Arr [])])"
    if "t = Str ''multi_select'' \<and> \<not> truthy (getProp ps ''multi_select'')"
    using that a b m by (auto simp: map_names_falsy)
  show "map_of mapped field = Some (Obj [(''rich_text'', js_or (getProp ps ''rich_text'') (Arr []))])"
    if "t \<notin> {Str ''rich_text'', Str ''number'', Str ''select'', Str ''multi_select'', Str ''date'',
                 Str ''url'', Str ''checkbox'', Str ''email'', Str ''phone_number''}"
    using that a b m by auto
qed

lemma mapProperties_fields_examples:
  "mapProperties sample_page sample_copy = Inr sample_mapped
   \<and> ''contract'' \<in> set sample_copy
   \<and> map_of (properties sample_page) ''contract'' = Some (Obj [(''type'', Str ''select''), (''select'', Null)])
   \<and> map_of sample_mapped ''contract'' = Some (Obj [(''select'', Null)])
   \<and> ''skills'' \<in> set sample_copy
   \<and> map_of (properties sample_page) ''skills'' =
        Some (Obj [(''type'', Str ''multi_select''), (''multi_select'', Arr [])])
   \<and> map_of sample_mapped ''skills'' = Some (Obj [(''multi_select'', Arr [])])
   \<and> ''state'' \<in> set sample_copy
   \<and> map_of (properties sample_page) ''state'' =
        Some (Obj [(''type'', Str ''status''), (''status'', Obj [(''name'', Str ''open'')])])
   \<and> map_of sample_mapped ''state'' = Some (Obj [(''rich_text'', Arr [])])
   \<and> ''missing'' \<in> set sample_copy \<and> map_of (properties sample_page) ''missing'' = None
   \<and> map_of sample_mapped ''missing'' = None
   \<and> ''internal'' \<notin> set sample_copy \<and> map_of sample_mapped ''internal'' = None"
proof -
  have ev: "mapProperties sample_page sample_copy = Inr sample_mapped"
    by code_simp
  have src: "''contract'' \<in> set sample_copy" "''skills'' \<in> set sample_copy" "''state'' \<in> set sample_copy"
    "''missing'' \<in> set sample_copy" "''internal'' \<notin> set sample_copy"
    "map_of (properties sample_page) ''contract'' = Some (Obj [(''type'', Str ''select''), (''select'', Null)])"
    "map_of (properties sample_page) ''skills'' =
        Some (Obj [(''type'', Str ''multi_select''), (''multi_select'', Arr [])])"
    "map_of (properties sample_page) ''state'' =
        Some (Obj [(''type'', Str ''status''), (''status'', Obj [(''name'', Str ''open'')])])"
    "map_of (properties sample_page) ''missing'' = None"
    by (simp_all add: sample_copy_def sample_page_def name_defs)
  have "map_of sample_mapped ''contract'' = Some (Obj [(''select'', Null)])"
    using mapProperties_fields [OF ev, of "''contract''" "[(''type'', Str ''select''), (''select'', Null)]"
            "Str ''select''" "[]"] src
    by (simp add: getProp_def name_defs)
  moreover have "map_of sample_mapped ''skills'' = Some (Obj [(''multi_select'', Arr [])])"
    using mapProperties_fields [OF ev, of "''skills''" "[(''type'', Str ''multi_select''), (''multi_select'', Arr [])]"
            "Str ''multi_select''" "[]"] src
    by (simp add: getProp_def name_defs)
  moreover have "map_of sample_mapped ''state'' = Some (Obj [(''rich_text'', Arr [])])"
    using mapProperties_fields [OF ev, of "''state''"
            "[(''type'', Str ''status''), (''status'', Obj [(''name'', Str ''open'')])]" "Str ''status''" "[]"] src
    by (simp add: getProp_def name_defs js_or_def object_prototype_keys_def)
  moreover have "map_of sample_mapped ''missing'' = None"
    using mapProperties_fields [OF ev, of "''missing''" "[]" Undefined "[]"] src
    by (simp add: name_defs object_prototype_keys_def)
  moreover have "map_of sample_mapped ''internal'' = None"
    using mapProperties_fields [OF ev, of "''internal''" "[]" Undefined "[]"] src
    by (simp add: name_defs)
  ultimately show ?thesis using ev src by simp
qed

text \<open>
  Claim C6: for every listed field present on the source record the mapper emits the
  documented shape of its type; a select field without selection emits an explicit null;
  a multi-choice field without selections emits an empty list; fields not listed, or
  listed but absent on the source, are omitted.

  The code does not omit every listed field that is absent on the source. The loop reads
  the field with \<open>sourceProps[field]\<close> and tests the result for truthiness only, so for
  a listed name that the record lacks and that is a member of \<open>Object.prototype\<close> it
  finds the inherited member, takes it for a property of an unrecognized type and writes
  an empty text span list under that name. Below, a record without any property and the
  listed names \<open>constructor\<close> and \<open>toString\<close>; a listed name that is no such member,
  \<open>missing\<close>, is omitted.
\<close>

theorem mapProperties_inherited_field:
  "map_of (properties bare_page) ''constructor'' = None
   \<and> map_of (properties bare_page) ''toString'' = None
   \<and> mapProperties bare_page [''constructor'', ''missing'', ''toString''] =
       Inr [(''constructor'', Obj [(''rich_text'', Arr [])]),
            (''toString'', Obj [(''rich_text'', Arr [])])]"
  by code_simp

section \<open>Properties of the forward sync\<close>












text \<open>A record with neither the title property nor the identifier property maps without
  a title, and without a back-reference unless the list of fields names it.\<close>

lemma mapProperties_without_title_and_id:
  assumes "mapProperties page copyFields = Inr mapped"
    and "map_of (properties page) anken_mei = None"
    and "map_of (properties page) anken_id = None"
  shows "map_of mapped anken_mei = None
    \<and> (master_anken_id \<notin> set copyFields \<longrightarrow> map_of mapped master_anken_id = None)"
proof -
  have 1: "getProp (properties page) anken_mei = Undefined" "getProp (properties page) anken_id = Undefined"
    using assms(2,3) by (simp_all add: getProp_def object_prototype_keys_def anken_mei_def anken_id_def)
  show ?thesis
    unfolding mapProperties_lookup[OF assms(1)] using 1 anken_names_distinct by auto
qed







text \<open>A property or a selection that is absent reads as \<open>undefined\<close>.\<close>

lemma select_name_missing:
  "map_of (properties job) k = None \<Longrightarrow> k \<notin> set object_prototype_keys \<Longrightarrow> select_name job k = Undefined"
  by (simp add: select_name_def getProp_def opt_chain_def)

lemma unique_number_missing:
  "map_of (properties job) anken_id = None \<Longrightarrow> unique_number job = Undefined"
  by (simp add: unique_number_def getProp_def opt_chain_def anken_id_def object_prototype_keys_def)

text \<open>The warning of the validation converts the category, the tier and the identifier
  to text. When one of them has no string conversion, the exception leaves the loop and
  the run ends without counting the record.\<close>

lemma syncJob_warning_throws:
  assumes "getPageTitle job = Inr jobName"
    and "\<not> truthy (select_name job anken_type) \<or> \<not> truthy (select_name job level_prop)
         \<or> nullish (unique_number job)"
    and "to_string (select_name job anken_type) = Inl e
         \<or> to_string (select_name job level_prop) = Inl e
         \<or> to_string (unique_number job) = Inl e"
  shows "\<exists>e'. syncJob ops publicDbs copyFields job r = Some (Inl e')
           \<and> syncJobs ops publicDbs copyFields (job # jobs) r = Some (Inl e')"
proof -
  from assms(3) have "\<exists>e'. template [Str jobName, select_name job anken_type,
      select_name job level_prop, unique_number job] = Inl e'"
    by (auto simp: template_def split: sum.splits)
  then obtain e' where "template [Str jobName, select_name job anken_type,
      select_name job level_prop, unique_number job] = Inl e'" ..
  with assms(1,2) have "syncJob ops publicDbs copyFields job r = Some (Inl e')"
    by (auto simp: syncJob_def Let_def)
  then show ?thesis by simp
qed



section \<open>Properties of the cleanup\<close>















text \<open>The message before the search converts the identifier to text. When the identifier
  has no string conversion, the exception leaves the loop and the run ends before any
  collection is searched.\<close>

lemma cleanupJob_message_throws:
  assumes "getPageTitle job = Inr jobName" and "\<not> nullish (unique_number job)"
    and "to_string (unique_number job) = Inl e"
  shows "cleanupJob ops publicDbs job r = Some (Inl e)
    \<and> cleanupJobs ops publicDbs (job # jobs) r = Some (Inl e)"
proof -
  from assms have "cleanupJob ops publicDbs job r = Some (Inl e)"
    by (simp add: cleanupJob_def Let_def template_def)
  then show ?thesis by simp
qed

text \<open>A closed record whose copies are all archived: two in the first video collection,
  one in the third.\<close>

lemma sample_cleanup_run:
  "cleanupJob (stub_ops [] found_in archive_ok) sample_public sample_page cleanup_start =
       Some (Inr \<lparr> store = (),
                   calls = [QueryCall (Str ''db-v1'') (MasterIdEquals (Num 1001)),
                            ArchiveCall (Str ''copy-a''), ArchiveCall (Str ''copy-b''),
                            QueryCall (Str ''db-v2'') (MasterIdEquals (Num 1001)),
                            QueryCall (Str ''db-v3'') (MasterIdEquals (Num 1001)),
                            ArchiveCall (Str ''copy-c''),
                            QueryCall (Str ''db-d1'') (MasterIdEquals (Num 1001)),
                            QueryCall (Str ''db-d2'') (MasterIdEquals (Num 1001)),
                            QueryCall (Str ''db-d3'') (MasterIdEquals (Num 1001))],
                   errorCount = 0, archivedCount = 3 \<rparr>)"
  by code_simp




end
